theory Spec2Isabelle
  imports Main "HOL-Library.AList"
begin

section \<open>The RADIUS token of privacyIDEA (privacyidea/lib/tokens/radiustoken.py)\<close>

text \<open>
  The theory embeds the methods of \<^verbatim>\<open>RadiusTokenClass\<close> that decide a verification:
  \<^verbatim>\<open>check_radius\<close>, \<^verbatim>\<open>check_otp\<close>, \<^verbatim>\<open>authenticate\<close>, \<^verbatim>\<open>split_pin_pass\<close>,
  \<^verbatim>\<open>is_challenge_request\<close>, \<^verbatim>\<open>is_challenge_response\<close> and \<^verbatim>\<open>check_challenge_response\<close>.
  Each definition follows the body of the method of the same name. The decorators
  \<^verbatim>\<open>log_with\<close> and \<^verbatim>\<open>check_token_locked\<close> are defined in other modules; the embedding is
  of the decorated bodies.

  Python raises; the model returns \<open>Inl\<close> of the exception. Python mutates the
  \<^verbatim>\<open>options\<close> dictionary, the challenge table and the network; the model passes a
  \<open>world\<close> and the dictionary in and out.
\<close>

subsection \<open>Values, exceptions, dictionaries\<close>

text \<open>
  The values that are stored in the \<^verbatim>\<open>options\<close> dictionary. A text string and a byte
  string are different values: the State attribute of a reply is of the type octets,
  which the RADIUS client hands over as bytes.
\<close>

datatype pyval = PNone | PInt int | PStr string | PBytes string

text \<open>
  A positional argument of \<^verbatim>\<open>split_pin_pass\<close> and \<^verbatim>\<open>check_pin\<close>: the source passes the
  token object itself (\<^verbatim>\<open>self\<close>) in some calls.
\<close>

datatype pyarg = ArgNone | ArgStr string | ArgSelf | ArgUser string

datatype exc =
    RecursionError
  | KeyError string
  | IndexError
  | AttributeError
  | UnicodeEncodeError
  | TypeError
  | ClientError string

type_synonym options = "(string \<times> pyval) list"

text \<open>\<^verbatim>\<open>options.get(key)\<close>: the value, or \<^verbatim>\<open>None\<close> when the key is missing.\<close>

definition opt_get :: "options \<Rightarrow> string \<Rightarrow> pyval" where
  "opt_get options key = (case map_of options key of None \<Rightarrow> PNone | Some v \<Rightarrow> v)"

text \<open>\<^verbatim>\<open>options.update({key: v})\<close>.\<close>

definition opt_update :: "string \<Rightarrow> pyval \<Rightarrow> options \<Rightarrow> options" where
  "opt_update key v options = AList.update key v options"

text \<open>
  Every method starts with \<^verbatim>\<open>options = options or {}\<close>. A dictionary that is \<^verbatim>\<open>None\<close> or
  empty is falsy, so the local name is then bound to a fresh dictionary and the
  caller's object never sees the updates. \<open>caller_view options local\<close> is the caller's
  dictionary after the call, \<open>local\<close> being the method's dictionary at its return.
\<close>

definition caller_view :: "options \<Rightarrow> options \<Rightarrow> options" where
  "caller_view options local = (if options = [] then options else local)"

text \<open>Python truth of a value.\<close>

fun truthy :: "pyval \<Rightarrow> bool" where
  "truthy PNone = False"
| "truthy (PInt i) = (i \<noteq> 0)"
| "truthy (PStr s) = (s \<noteq> [])"
| "truthy (PBytes s) = (s \<noteq> [])"

fun truthy_str :: "string option \<Rightarrow> bool" where
  "truthy_str None = False"
| "truthy_str (Some s) = (s \<noteq> [])"

fun show_nat :: "nat \<Rightarrow> string" where
  "show_nat n =
     (if n < 10 then [''0123456789'' ! n]
      else show_nat (n div 10) @ [''0123456789'' ! (n mod 10)])"

declare show_nat.simps [simp del]

definition show_int :: "int \<Rightarrow> string" where
  "show_int i = (if i < 0 then CHR ''-'' # show_nat (nat (- i)) else show_nat (nat i))"

text \<open>
  The \<^verbatim>\<open>repr\<close> of a byte string: \<^verbatim>\<open>b'...'\<close>, in double quotes when the bytes hold a single
  quote and no double quote; the quote and the backslash are escaped, tab, newline and
  carriage return are written with their letters, every other byte outside the
  printable ASCII range as \<^verbatim>\<open>\xhh\<close>.
\<close>

definition escape_byte :: "char \<Rightarrow> char \<Rightarrow> string" where
  "escape_byte q c =
     (if c = q \<or> c = CHR 0x5C then [CHR 0x5C, c]
      else if c = CHR 0x09 then [CHR 0x5C, CHR ''t'']
      else if c = CHR 0x0A then [CHR 0x5C, CHR ''n'']
      else if c = CHR 0x0D then [CHR 0x5C, CHR ''r'']
      else if (of_char c :: nat) < 32 \<or> 127 \<le> (of_char c :: nat) then
        [CHR 0x5C, CHR ''x'', ''0123456789abcdef'' ! ((of_char c :: nat) div 16),
         ''0123456789abcdef'' ! ((of_char c :: nat) mod 16)]
      else [c])"

definition bytes_repr :: "string \<Rightarrow> string" where
  "bytes_repr s =
     (let q = (if CHR 0x27 \<in> set s \<and> CHR 0x22 \<notin> set s then CHR 0x22 else CHR 0x27)
      in CHR ''b'' # q # concat (map (escape_byte q) s) @ [q])"

text \<open>\<^verbatim>\<open>str(v)\<close>; for a byte string it is the \<^verbatim>\<open>repr\<close>.\<close>

fun py_str :: "pyval \<Rightarrow> string" where
  "py_str PNone = ''None''"
| "py_str (PInt i) = show_int i"
| "py_str (PStr s) = s"
| "py_str (PBytes s) = bytes_repr s"

text \<open>\<^verbatim>\<open>s.split(':')\<close>; the result is never empty.\<close>

fun split_colon :: "string \<Rightarrow> string list" where
  "split_colon [] = [[]]"
| "split_colon (c # cs) =
     (if c = CHR '':'' then [] # split_colon cs
      else (case split_colon cs of [] \<Rightarrow> [[c]] | p # ps \<Rightarrow> (c # p) # ps))"

text \<open>\<^verbatim>\<open>s.encode('ascii')\<close> raises on a character outside ASCII.\<close>

definition encode_ascii :: "string \<Rightarrow> exc + string" where
  "encode_ascii s = (if list_all (\<lambda>c. (of_char c :: nat) < 128) s then Inr s else Inl UnicodeEncodeError)"

text \<open>Sequencing of steps that may raise.\<close>

fun bind_exc :: "exc + 'a \<Rightarrow> ('a \<Rightarrow> exc + 'b) \<Rightarrow> exc + 'b" where
  "bind_exc (Inl e) f = Inl e"
| "bind_exc (Inr x) f = f x"

subsection \<open>Token, RADIUS packets, challenges, the world\<close>

record token =
  serial :: string
  tokentype :: string
  tokeninfo :: "(string \<times> string) list"
  otpkey :: string

definition get_tokeninfo :: "token \<Rightarrow> string \<Rightarrow> string option" where
  "get_tokeninfo tok key = map_of (tokeninfo tok) key"

text \<open>The object \<^verbatim>\<open>get_radius(identifier)\<close> returns: \<^verbatim>\<open>config.server\<close>, \<^verbatim>\<open>config.port\<close>,
  \<^verbatim>\<open>get_secret()\<close>, \<^verbatim>\<open>config.dictionary\<close>.\<close>

record radius_server_object =
  cfg_server :: string
  cfg_port :: int
  cfg_secret :: string
  cfg_dictionary :: "string option"

text \<open>The Access-Request as \<^verbatim>\<open>check_radius\<close> builds it, with the client it is sent through.\<close>

record request =
  r_server :: string
  r_authport :: int
  r_secret :: string
  r_dict :: string
  user_name :: string
  nas_identifier :: string
  user_password :: string
  req_state :: "string option"

record response =
  code :: int
  attrs :: "(string \<times> string list) list"

text \<open>The packet codes of \<^verbatim>\<open>pyrad.packet\<close>.\<close>

definition AccessRequest :: int where "AccessRequest = 1"
definition AccessAccept :: int where "AccessAccept = 2"
definition AccessReject :: int where "AccessReject = 3"
definition AccessChallenge :: int where "AccessChallenge = 11"

record challenge =
  ch_id :: nat
  ch_serial :: string
  ch_transaction_id :: string
  ch_data :: pyval
  ch_challenge :: string
  ch_valid :: bool
  received_count :: nat

datatype event = Sent request | LogError exc | Janitor string

text \<open>What the methods change: the packets sent and the errors logged, in order, and
  the table of persisted challenges.\<close>

record world =
  events :: "event list"
  challenges :: "challenge list"

fun sent_requests :: "event list \<Rightarrow> request list" where
  "sent_requests [] = []"
| "sent_requests (Sent r # es) = r # sent_requests es"
| "sent_requests (_ # es) = sent_requests es"

text \<open>
  The collaborators the module imports and the base class it extends; none of them is
  defined in this file of the source, so each is a parameter:
  \<^item> \<open>is_true\<close>: \<^verbatim>\<open>privacyidea.lib.utils.is_true\<close>;
  \<^item> \<open>get_radius\<close>: the registry of named servers;
  \<^item> \<open>get_from_config\<close>: the system configuration (\<open>None\<close>: the key is not set);
  \<^item> \<open>unhexlify\<close>, \<open>py_int\<close>, \<open>to_unicode\<close>, \<open>to_bytes\<close>: conversions that may raise;
  \<^item> \<open>load_dictionary\<close>: \<^verbatim>\<open>Dictionary(path)\<close>;
  \<^item> \<open>pw_crypt\<close>: \<^verbatim>\<open>req.PwCrypt\<close>, from the shared secret and the password;
  \<^item> \<open>send_packet\<close>: \<^verbatim>\<open>srv.SendPacket\<close>, the reply (or the exception) of the network to a
    request, given the requests sent before it;
  \<^item> \<open>base_check_pin\<close>: \<^verbatim>\<open>TokenClass.check_pin(self, pin, user)\<close>;
  \<^item> \<open>recursion_limit\<close>: the number of frames the interpreter still allows.
\<close>

record env =
  is_true :: "string option \<Rightarrow> bool"
  get_radius :: "string \<Rightarrow> exc + radius_server_object"
  get_from_config :: "string \<Rightarrow> string option"
  unhexlify :: "string \<Rightarrow> exc + string"
  py_int :: "string \<Rightarrow> exc + int"
  to_unicode :: "string option \<Rightarrow> exc + string"
  to_bytes :: "string option \<Rightarrow> exc + string"
  load_dictionary :: "string \<Rightarrow> exc + unit"
  pw_crypt :: "string \<Rightarrow> string \<Rightarrow> exc + string"
  send_packet :: "request list \<Rightarrow> request \<Rightarrow> exc + response"
  base_check_pin :: "token \<Rightarrow> pyarg \<Rightarrow> pyarg \<Rightarrow> exc + bool"
  recursion_limit :: nat

text \<open>\<^verbatim>\<open>get_from_config(key, default)\<close>.\<close>

definition get_from_config_default :: "env \<Rightarrow> string \<Rightarrow> string \<Rightarrow> string" where
  "get_from_config_default env key dflt =
     (case get_from_config env key of None \<Rightarrow> dflt | Some v \<Rightarrow> v)"

subsection \<open>check\_radius\<close>

text \<open>
  Lines 425 to 447: the server, the secret and the dictionary, from the named server,
  else from the system configuration, else from the token. The server and the secret
  may be \<^verbatim>\<open>None\<close>. This part is outside the \<^verbatim>\<open>try\<close>.
\<close>

definition resolve_radius ::
  "env \<Rightarrow> token \<Rightarrow> exc + (string option \<times> string option \<times> string option)" where
  "resolve_radius env tok =
     (let radius_identifier = get_tokeninfo tok ''radius.identifier'';
          system_radius_settings = get_tokeninfo tok ''radius.system_settings''
      in if truthy_str radius_identifier then
           bind_exc (get_radius env (case radius_identifier of Some i \<Rightarrow> i | None \<Rightarrow> []))
             (\<lambda>radius_server_object.
                Inr (Some (cfg_server radius_server_object @ '':'' @
                           show_int (cfg_port radius_server_object)),
                     Some (cfg_secret radius_server_object),
                     cfg_dictionary radius_server_object))
         else if truthy_str system_radius_settings then
           Inr (get_from_config env ''radius.server'',
                get_from_config env ''radius.secret'', None)
         else
           bind_exc (unhexlify env (otpkey tok))
             (\<lambda>radius_secret.
                Inr (get_tokeninfo tok ''radius.server'', Some radius_secret, None)))"

text \<open>
  Lines 460 to 491, inside the \<^verbatim>\<open>try\<close>: the client and the Access-Request. The
  password attribute is \<^verbatim>\<open>PwCrypt(otpval)\<close>; the State attribute is the
  \<^verbatim>\<open>transactionid\<close> of the options when that key is present, overridden by a truthy
  \<^verbatim>\<open>radius_state\<close> argument.
\<close>

definition build_request ::
  "env \<Rightarrow> token \<Rightarrow> string \<Rightarrow> options \<Rightarrow> pyval \<Rightarrow>
   string option \<times> string option \<times> string option \<Rightarrow> exc + request" where
  "build_request env tok otpval options radius_state cfg =
     (case cfg of (radius_server, radius_secret, radius_dictionary) \<Rightarrow>
      (case radius_server of None \<Rightarrow> Inl AttributeError
       | Some rs \<Rightarrow>
      (case split_colon rs of [] \<Rightarrow> Inl IndexError
       | srv0 # rest \<Rightarrow>
      bind_exc (case rest of [] \<Rightarrow> Inr 1812 | p # _ \<Rightarrow> py_int env p) (\<lambda>authport.
      (let nas = get_from_config_default env ''radius.nas_identifier'' ''privacyIDEA'';
           dict = (if truthy_str radius_dictionary
                   then (case radius_dictionary of Some d \<Rightarrow> d | None \<Rightarrow> [])
                   else get_from_config_default env ''radius.dictfile''
                          ''/etc/privacyidea/dictionary'')
       in
      bind_exc (to_unicode env radius_secret) (\<lambda>_.
      bind_exc (to_bytes env radius_secret) (\<lambda>secret.
      bind_exc (load_dictionary env dict) (\<lambda>_.
      (case get_tokeninfo tok ''radius.user'' of None \<Rightarrow> Inl AttributeError
       | Some radius_user \<Rightarrow>
      bind_exc (encode_ascii nas) (\<lambda>nas_ascii.
      bind_exc (pw_crypt env secret otpval) (\<lambda>pw.
      (let st1 = (if ''transactionid'' \<in> fst ` set options
                  then Some (py_str (opt_get options ''transactionid'')) else None);
           st2 = (if truthy radius_state then Some (py_str radius_state) else st1)
       in Inr \<lparr>r_server = srv0, r_authport = authport, r_secret = secret, r_dict = dict,
                user_name = radius_user, nas_identifier = nas_ascii,
                user_password = pw, req_state = st2\<rparr>))))))))))))"

text \<open>
  Lines 495 to 520, inside the \<^verbatim>\<open>try\<close>: the reply mapped to the locals \<^verbatim>\<open>result\<close>,
  \<^verbatim>\<open>radius_state\<close> and \<^verbatim>\<open>radius_message\<close>. The result is the exception raised, if any,
  and the locals as they are when the block is left: \<^verbatim>\<open>result\<close> starts at \<open>-1\<close>,
  \<^verbatim>\<open>radius_message\<close> at \<^verbatim>\<open>None\<close>. On a challenge, the \<^verbatim>\<open>log.info\<close> line reads
  \<^verbatim>\<open>opt["State"]\<close> and \<^verbatim>\<open>opt["Reply-Message"]\<close> before the two membership tests. The State
  that is captured is a byte string, the Reply-Message a text string.
\<close>

definition handle_response ::
  "response \<Rightarrow> pyval \<Rightarrow> exc option \<times> int \<times> pyval \<times> pyval" where
  "handle_response resp radius_state =
     (if code resp = AccessChallenge then
        (let opt = map_of (attrs resp) in
         if opt ''State'' = None then (Some (KeyError ''State''), -1, radius_state, PNone)
         else if opt ''Reply-Message'' = None
           then (Some (KeyError ''Reply-Message''), -1, radius_state, PNone)
         else
           (case (if opt ''State'' \<noteq> None
                  then (case opt ''State'' of Some (s # _) \<Rightarrow> Inr (PBytes s) | _ \<Rightarrow> Inl IndexError)
                  else Inr radius_state) of
              Inl e \<Rightarrow> (Some e, -1, radius_state, PNone)
            | Inr radius_state1 \<Rightarrow>
           (case (if opt ''Reply-Message'' \<noteq> None
                  then (case opt ''Reply-Message'' of Some (m # _) \<Rightarrow> Inr (PStr m)
                        | _ \<Rightarrow> Inl IndexError)
                  else Inr PNone) of
              Inl e \<Rightarrow> (Some e, -1, radius_state1, PNone)
            | Inr radius_message \<Rightarrow> (None, 1, radius_state1, radius_message))))
      else if code resp = AccessAccept then
        (None, 0, PStr ''<SUCCESS>'', PStr ''RADIUS authentication succeeded'')
      else
        (None, -1, PStr ''<REJECTED>'', PStr ''RADIUS authentication failed''))"

text \<open>
  The \<^verbatim>\<open>try\<close> block, lines 454 to 520: build the request, send it, map the reply. A
  request that is sent is recorded in the world, also when the reply then raises.
\<close>

definition radius_try ::
  "env \<Rightarrow> token \<Rightarrow> string \<Rightarrow> options \<Rightarrow> pyval \<Rightarrow>
   string option \<times> string option \<times> string option \<Rightarrow> world \<Rightarrow>
   world \<times> exc option \<times> int \<times> pyval \<times> pyval" where
  "radius_try env tok otpval options radius_state cfg w =
     (case build_request env tok otpval options radius_state cfg of
        Inl e \<Rightarrow> (w, Some e, -1, radius_state, PNone)
      | Inr req \<Rightarrow>
          (let w1 = w\<lparr>events := events w @ [Sent req]\<rparr> in
           case send_packet env (sent_requests (events w)) req of
             Inl e \<Rightarrow> (w1, Some e, -1, radius_state, PNone)
           | Inr resp \<Rightarrow> (w1, handle_response resp radius_state)))"

text \<open>
  \<^verbatim>\<open>check_radius(otpval, options, radius_state)\<close>. The result is the exception that leaves
  the method, or the value returned, the world and the caller's dictionary after the
  call. The \<^verbatim>\<open>log.debug\<close> line before the \<^verbatim>\<open>try\<close> takes \<^verbatim>\<open>len(otpval)\<close>, which raises for
  a value that is not a string. The \<^verbatim>\<open>except Exception\<close> handler logs and falls through
  to the three updates.
\<close>

definition check_radius ::
  "env \<Rightarrow> token \<Rightarrow> pyarg \<Rightarrow> options \<Rightarrow> pyval \<Rightarrow> world \<Rightarrow> exc + (int \<times> world \<times> options)" where
  "check_radius env tok otpval options radius_state w =
     (let authstate = opt_get options ''radius_state'' in
      if authstate = PStr ''<SUCCESS>'' then
        Inr (0, w, caller_view options
                     (opt_update ''radius_message'' PNone (opt_update ''radius_state'' PNone options)))
      else if authstate = PStr ''<REJECTED>'' then
        Inr (-1, w, caller_view options
                      (opt_update ''radius_message'' PNone (opt_update ''radius_state'' PNone options)))
      else
        bind_exc (resolve_radius env tok) (\<lambda>cfg.
        bind_exc (case otpval of ArgStr s \<Rightarrow> Inr s | _ \<Rightarrow> Inl TypeError) (\<lambda>otp.
          (case radius_try env tok otp options radius_state cfg w of
             (w1, raised, result, radius_state1, radius_message) \<Rightarrow>
               (let w2 = (case raised of None \<Rightarrow> w1
                          | Some ex \<Rightarrow> w1\<lparr>events := events w1 @ [LogError ex]\<rparr>)
                in Inr (result, w2,
                        caller_view options
                          (opt_update ''radius_message'' radius_message
                             (opt_update ''radius_state'' radius_state1
                                (opt_update ''radius_result'' (PInt result) options)))))))))"

text \<open>\<^verbatim>\<open>check_otp(otpval, counter, window, options)\<close>.\<close>

definition check_otp ::
  "env \<Rightarrow> token \<Rightarrow> pyarg \<Rightarrow> options \<Rightarrow> world \<Rightarrow> exc + (bool \<times> world \<times> options)" where
  "check_otp env tok otpval options w =
     bind_exc (check_radius env tok otpval options PNone w)
       (\<lambda>(res, w1, options1). Inr (res \<noteq> -1, w1, options1))"

subsection \<open>The local PIN\<close>

text \<open>The property \<^verbatim>\<open>check_pin_local\<close>.\<close>

definition check_pin_local :: "env \<Rightarrow> token \<Rightarrow> bool" where
  "check_pin_local env tok = is_true env (get_tokeninfo tok ''radius.local_checkpin'')"

text \<open>
  \<^verbatim>\<open>split_pin_pass(passw, user, options)\<close>. In local-PIN mode the body calls
  \<^verbatim>\<open>self.split_pin_pass(self, passw)\<close>: the same method, with the token object as
  \<^verbatim>\<open>passw\<close> and the password as \<^verbatim>\<open>user\<close>. The first argument of the model is the number of
  frames the interpreter still allows; a call with none left raises
  \<^verbatim>\<open>RecursionError\<close>.
\<close>

fun split_pin_pass ::
  "nat \<Rightarrow> env \<Rightarrow> token \<Rightarrow> pyarg \<Rightarrow> pyarg \<Rightarrow> exc + (int \<times> pyarg \<times> pyarg)" where
  "split_pin_pass 0 env tok passw user = Inl RecursionError"
| "split_pin_pass (Suc depth) env tok passw user =
     (if check_pin_local env tok then
        bind_exc (split_pin_pass depth env tok ArgSelf passw)
          (\<lambda>(res, pin, otpval). Inr (res, pin, otpval))
      else Inr (0, ArgStr [], passw))"

text \<open>
  Lines 168 to 172 and 365 to 370, shared by \<^verbatim>\<open>is_challenge_request\<close> and
  \<^verbatim>\<open>authenticate\<close>: in local-PIN mode split the password, then call
  \<^verbatim>\<open>self.check_pin(self, pin)\<close>, the base method with the token object as the PIN and the
  PIN as the user. The result is \<open>None\<close> when the PIN check fails and the value of
  \<^verbatim>\<open>otpval\<close> otherwise.
\<close>

definition local_pin_step ::
  "env \<Rightarrow> token \<Rightarrow> string \<Rightarrow> pyarg \<Rightarrow> exc + pyarg option" where
  "local_pin_step env tok passw user =
     (if check_pin_local env tok then
        bind_exc (split_pin_pass (recursion_limit env) env tok (ArgStr passw) user)
          (\<lambda>(res, pin, otpval).
             bind_exc (base_check_pin env tok ArgSelf pin)
               (\<lambda>ok. if \<not> ok then Inr None else Inr (Some otpval)))
      else Inr (Some (ArgStr passw)))"

subsection \<open>is\_challenge\_request and authenticate\<close>

text \<open>
  Lines 174 to 181 of \<^verbatim>\<open>is_challenge_request\<close>, with the locals \<^verbatim>\<open>passw\<close>, \<^verbatim>\<open>otpval\<close> and
  \<^verbatim>\<open>state\<close> in scope. The call is \<^verbatim>\<open>self.check_radius(passw, ...)\<close>.
\<close>

definition is_challenge_request_rest ::
  "env \<Rightarrow> token \<Rightarrow> string \<Rightarrow> pyarg \<Rightarrow> pyval \<Rightarrow> options \<Rightarrow> world \<Rightarrow>
   exc + (bool \<times> world \<times> options)" where
  "is_challenge_request_rest env tok passw otpval state options w =
     (let result = opt_get options ''radius_result'' in
      if result = PNone then
        bind_exc (check_radius env tok (ArgStr passw) options state w)
          (\<lambda>(res, w1, options1). Inr (res = 1, w1, options1))
      else Inr (result = PInt 1, w, options))"

definition is_challenge_request ::
  "env \<Rightarrow> token \<Rightarrow> string \<Rightarrow> pyarg \<Rightarrow> options \<Rightarrow> world \<Rightarrow>
   exc + (bool \<times> world \<times> options)" where
  "is_challenge_request env tok passw user options w =
     (let state = opt_get options ''radius_state'' in
      bind_exc (local_pin_step env tok passw user)
        (\<lambda>r. case r of
               None \<Rightarrow> Inr (False, w, options)
             | Some otpval \<Rightarrow> is_challenge_request_rest env tok passw otpval state options w))"

type_synonym reply = "(string \<times> string) list"

text \<open>Lines 372 to 390 of \<^verbatim>\<open>authenticate\<close>, with the local \<^verbatim>\<open>otpval\<close> in scope.\<close>

definition authenticate_rest ::
  "env \<Rightarrow> token \<Rightarrow> pyarg \<Rightarrow> options \<Rightarrow> world \<Rightarrow>
   exc + ((bool \<times> pyval \<times> reply) \<times> world \<times> options)" where
  "authenticate_rest env tok otpval options w =
     (let state = opt_get options ''radius_state'';
          result = opt_get options ''radius_result''
      in bind_exc (if result = PNone
                   then bind_exc (check_radius env tok otpval options state w)
                          (\<lambda>(res, w1, options1). Inr (PInt res, w1, options1))
                   else Inr (result, w, options))
           (\<lambda>(otp_counter, w1, options1).
              if otp_counter = PInt 0 then
                Inr ((True, otp_counter,
                      [(''message'', ''matching 1 tokens''), (''serial'', serial tok),
                       (''type'', tokentype tok)]), w1, options1)
              else if otp_counter = PInt 1 then
                Inr ((False, otp_counter, [(''message'', ''unexpected challenge required'')]),
                     w1, options1)
              else
                Inr ((False, otp_counter, [(''message'', ''remote side denied access'')]),
                     w1, options1)))"

definition authenticate ::
  "env \<Rightarrow> token \<Rightarrow> string \<Rightarrow> pyarg \<Rightarrow> options \<Rightarrow> world \<Rightarrow>
   exc + ((bool \<times> pyval \<times> reply) \<times> world \<times> options)" where
  "authenticate env tok passw user options w =
     bind_exc (local_pin_step env tok passw user)
       (\<lambda>r. case r of
              None \<Rightarrow> Inr ((False, PInt (-1), [(''message'', ''Wrong PIN'')]), w, options)
            | Some otpval \<Rightarrow> authenticate_rest env tok otpval options w)"

subsection \<open>The challenge table\<close>

text \<open>
  Modelled from the spec: \<^verbatim>\<open>get_challenges(serial, transaction_id)\<close> of
  \<^verbatim>\<open>privacyidea.lib.challenge\<close> is missing from the source. The spec's
  \<^verbatim>\<open>findByTokenAndTransaction(serial, txId)\<close> returns the list of the persisted challenges of
  the token serial and the transaction identifier.
\<close>

definition get_challenges :: "world \<Rightarrow> string \<Rightarrow> pyval \<Rightarrow> challenge list" where
  "get_challenges w ser transaction_id =
     filter (\<lambda>c. ch_serial c = ser \<and> PStr (ch_transaction_id c) = transaction_id) (challenges w)"

text \<open>
  Modelled from the spec: \<^verbatim>\<open>Challenge.is_valid()\<close> of \<^verbatim>\<open>privacyidea.models\<close> is missing
  from the source. The spec gives a challenge a validity predicate; its value during
  the call is the field \<open>ch_valid\<close>.
\<close>

definition is_valid :: "challenge \<Rightarrow> bool" where
  "is_valid c = ch_valid c"

text \<open>
  Modelled from the spec: \<^verbatim>\<open>Challenge.delete()\<close> is missing from the source. The record
  is removed from the table; a record that is already gone is simply absent.
\<close>

definition delete_challenge :: "challenge \<Rightarrow> world \<Rightarrow> world" where
  "delete_challenge c w = w\<lparr>challenges := filter (\<lambda>d. ch_id d \<noteq> ch_id c) (challenges w)\<rparr>"

text \<open>
  Modelled from the spec: \<^verbatim>\<open>Challenge.set_otp_status()\<close> is missing from the source. The
  spec's \<^verbatim>\<open>record.setOtpStatus()\<close> increments the receive count of the record.
\<close>

definition set_otp_status :: "challenge \<Rightarrow> world \<Rightarrow> world" where
  "set_otp_status c w =
     w\<lparr>challenges :=
         map (\<lambda>d. if ch_id d = ch_id c then d\<lparr>received_count := received_count d + 1\<rparr> else d)
           (challenges w)\<rparr>"

text \<open>
  Modelled from the spec: \<^verbatim>\<open>TokenClass.challenge_janitor()\<close> is missing from the source. The
  spec's \<^verbatim>\<open>janitorSweep(serial)\<close> removes the expired challenges of the token; the sweep is
  recorded in the events.
\<close>

definition challenge_janitor :: "token \<Rightarrow> world \<Rightarrow> world" where
  "challenge_janitor tok w =
     w\<lparr>events := events w @ [Janitor (serial tok)],
       challenges := filter (\<lambda>c. \<not> (ch_serial c = serial tok \<and> \<not> is_valid c)) (challenges w)\<rparr>"

subsection \<open>is\_challenge\_response\<close>

text \<open>Lines 239 to 241 and 288 to 290: the transaction identifier of the options.\<close>

definition fetch_transaction_id :: "options \<Rightarrow> pyval" where
  "fetch_transaction_id options =
     (let transaction_id = opt_get options ''transaction_id'' in
      if transaction_id = PNone then opt_get options ''state'' else transaction_id)"

text \<open>
  The \<^verbatim>\<open>for\<close> loop of \<^verbatim>\<open>is_challenge_response\<close>, lines 248 to 261, over the challenges
  that were fetched, with the local \<^verbatim>\<open>challenge_response\<close>. There is no \<^verbatim>\<open>break\<close>.
\<close>

fun icr_loop ::
  "env \<Rightarrow> token \<Rightarrow> string \<Rightarrow> challenge list \<Rightarrow> bool \<Rightarrow> world \<Rightarrow> options \<Rightarrow>
   exc + (bool \<times> world \<times> options)" where
  "icr_loop env tok otpval [] challenge_response w options = Inr (challenge_response, w, options)"
| "icr_loop env tok otpval (c # cs) challenge_response w options =
     (if is_valid c then
        (case check_radius env tok (ArgStr otpval) options (ch_data c) w of
           Inl e \<Rightarrow> Inl e
         | Inr (res, w1, options1) \<Rightarrow>
             if res \<noteq> 1 then icr_loop env tok otpval cs True w1 options1
             else icr_loop env tok otpval cs challenge_response
                    (challenge_janitor tok (delete_challenge c w1)) options1)
      else icr_loop env tok otpval cs challenge_response w options)"

text \<open>
  \<^verbatim>\<open>is_challenge_response(passw, user, options)\<close>. The update of \<^verbatim>\<open>radius_result\<close> comes
  first; the loop runs when the transaction identifier is truthy.
\<close>

definition is_challenge_response ::
  "env \<Rightarrow> token \<Rightarrow> string \<Rightarrow> options \<Rightarrow> world \<Rightarrow> exc + (bool \<times> world \<times> options)" where
  "is_challenge_response env tok passw options w =
     (let otpval = passw;
          challenge_response = False;
          options1 = opt_update ''radius_result'' PNone options;
          transaction_id = fetch_transaction_id options1
      in if truthy transaction_id then
           bind_exc (icr_loop env tok otpval (get_challenges w (serial tok) transaction_id)
                       challenge_response w options1)
             (\<lambda>(cr, w1, options2). Inr (cr, w1, caller_view options options2))
         else Inr (challenge_response, w, caller_view options options1))"

subsection \<open>check\_challenge\_response\<close>

text \<open>
  The \<^verbatim>\<open>for\<close> loop of \<^verbatim>\<open>check_challenge_response\<close>, lines 297 to 311. The local
  \<^verbatim>\<open>otp_counter\<close> is \<open>-1\<close> before the loop and after every iteration that does not
  \<^verbatim>\<open>break\<close>, so the loop returns \<open>0\<close> at the \<^verbatim>\<open>break\<close> and \<open>-1\<close> at its end.
\<close>

fun ccr_loop ::
  "env \<Rightarrow> token \<Rightarrow> string \<Rightarrow> challenge list \<Rightarrow> world \<Rightarrow> options \<Rightarrow>
   exc + (int \<times> world \<times> options)" where
  "ccr_loop env tok passw [] w options = Inr (-1, w, options)"
| "ccr_loop env tok passw (c # cs) w options =
     (if is_valid c then
        (case check_radius env tok (ArgStr passw) options (ch_data c) w of
           Inl e \<Rightarrow> Inl e
         | Inr (otp_counter, w1, options1) \<Rightarrow>
             if otp_counter = 0 then Inr (otp_counter, delete_challenge c w1, options1)
             else ccr_loop env tok passw cs (set_otp_status c w1) options1)
      else ccr_loop env tok passw cs w options)"

text \<open>
  \<^verbatim>\<open>check_challenge_response(user, passw, options)\<close>. The loop runs when the transaction
  identifier is not \<^verbatim>\<open>None\<close>; the janitor runs after it.
\<close>

definition check_challenge_response ::
  "env \<Rightarrow> token \<Rightarrow> string \<Rightarrow> options \<Rightarrow> world \<Rightarrow> exc + (int \<times> world \<times> options)" where
  "check_challenge_response env tok passw options w =
     (let transaction_id = fetch_transaction_id options in
      bind_exc (if transaction_id \<noteq> PNone
                then ccr_loop env tok passw (get_challenges w (serial tok) transaction_id) w options
                else Inr (-1, w, options))
        (\<lambda>(otp_counter, w1, options1). Inr (otp_counter, challenge_janitor tok w1, options1)))"

subsection \<open>A token, an environment and a few worlds to compute with\<close>

definition ex_env :: "(request list \<Rightarrow> request \<Rightarrow> exc + response) \<Rightarrow> env" where
  "ex_env net =
     \<lparr>is_true = (\<lambda>v. v = Some ''1'' \<or> v = Some ''True'' \<or> v = Some ''true''),
      get_radius = (\<lambda>_. Inl (ClientError ''no such server'')),
      get_from_config = (\<lambda>_. None),
      unhexlify = (\<lambda>s. Inr s),
      py_int = (\<lambda>_. Inr 1812),
      to_unicode = (\<lambda>s. case s of None \<Rightarrow> Inl TypeError | Some x \<Rightarrow> Inr x),
      to_bytes = (\<lambda>s. case s of None \<Rightarrow> Inl TypeError | Some x \<Rightarrow> Inr x),
      load_dictionary = (\<lambda>_. Inr ()),
      pw_crypt = (\<lambda>secret pw. Inr pw),
      send_packet = net,
      base_check_pin = (\<lambda>_ _ _. Inr True),
      recursion_limit = 1000\<rparr>"

text \<open>The same environment with a base PIN check that always fails.\<close>

definition ex_env_wrong_pin :: "(request list \<Rightarrow> request \<Rightarrow> exc + response) \<Rightarrow> env" where
  "ex_env_wrong_pin net = (ex_env net)\<lparr>base_check_pin := (\<lambda>_ _ _. Inr False)\<rparr>"

definition ex_tok :: token where
  "ex_tok = \<lparr>serial = ''PIRA0001'', tokentype = ''radius'',
             tokeninfo = [(''radius.server'', ''192.0.2.1''), (''radius.user'', ''alice'')],
             otpkey = ''s3cr3t''\<rparr>"

text \<open>A token with no server configured.\<close>

definition ex_tok_noserver :: token where
  "ex_tok_noserver = \<lparr>serial = ''PIRA0003'', tokentype = ''radius'',
             tokeninfo = [(''radius.user'', ''alice'')], otpkey = ''s3cr3t''\<rparr>"

definition ex_tok_local :: token where
  "ex_tok_local = \<lparr>serial = ''PIRA0002'', tokentype = ''radius'',
             tokeninfo = [(''radius.server'', ''192.0.2.1''), (''radius.user'', ''alice''),
                          (''radius.local_checkpin'', ''1'')],
             otpkey = ''s3cr3t''\<rparr>"

definition ex_request :: "string \<Rightarrow> string option \<Rightarrow> request" where
  "ex_request pw st =
     \<lparr>r_server = ''192.0.2.1'', r_authport = 1812, r_secret = ''s3cr3t'',
      r_dict = ''/etc/privacyidea/dictionary'', user_name = ''alice'',
      nas_identifier = ''privacyIDEA'', user_password = pw, req_state = st\<rparr>"

definition ex_world :: world where
  "ex_world = \<lparr>events = [], challenges = []\<rparr>"

text \<open>Networks: one that never answers, and three that always send the same reply.\<close>

definition net_timeout :: "request list \<Rightarrow> request \<Rightarrow> exc + response" where
  "net_timeout sent req = Inl (ClientError ''Timeout'')"

definition net_accept :: "request list \<Rightarrow> request \<Rightarrow> exc + response" where
  "net_accept sent req = Inr \<lparr>code = AccessAccept, attrs = []\<rparr>"

definition net_reject :: "request list \<Rightarrow> request \<Rightarrow> exc + response" where
  "net_reject sent req = Inr \<lparr>code = AccessReject, attrs = []\<rparr>"

definition net_challenge :: "request list \<Rightarrow> request \<Rightarrow> exc + response" where
  "net_challenge sent req =
     Inr \<lparr>code = AccessChallenge,
          attrs = [(''State'', [''S1'']), (''Reply-Message'', [''Enter the next code''])]\<rparr>"

text \<open>A network whose challenge carries a State but no Reply-Message.\<close>

definition net_challenge_bare :: "request list \<Rightarrow> request \<Rightarrow> exc + response" where
  "net_challenge_bare sent req =
     Inr \<lparr>code = AccessChallenge, attrs = [(''State'', [''S1''])]\<rparr>"

text \<open>A network that challenges the first request and accepts every later one.\<close>

definition net_challenge_then_accept :: "request list \<Rightarrow> request \<Rightarrow> exc + response" where
  "net_challenge_then_accept sent req =
     (if sent = [] then net_challenge sent req else net_accept sent req)"

definition ex_challenge :: "nat \<Rightarrow> string \<Rightarrow> challenge" where
  "ex_challenge i st =
     \<lparr>ch_id = i, ch_serial = ''PIRA0001'', ch_transaction_id = ''T1'', ch_data = PStr st,
      ch_challenge = ''Enter your RADIUS tokencode:'', ch_valid = True, received_count = 0\<rparr>"

definition ex_world1 :: world where
  "ex_world1 = \<lparr>events = [], challenges = [ex_challenge 1 ''S0'']\<rparr>"

definition ex_world2 :: world where
  "ex_world2 = \<lparr>events = [], challenges = [ex_challenge 1 ''S0'', ex_challenge 2 ''S0b'']\<rparr>"

section \<open>Properties\<close>

lemma opt_get_update:
  "opt_get (opt_update k v options) k' = (if k' = k then v else opt_get options k')"
  by (simp add: opt_get_def opt_update_def update_conv')

text \<open>
  Claim C2. When the \<^verbatim>\<open>radius_state\<close> of the options is the sentinel \<^verbatim>\<open><SUCCESS>\<close>,
  \<^verbatim>\<open>check_radius\<close> returns 0; when it is \<^verbatim>\<open><REJECTED>\<close>, it returns -1. In both cases
  the world is unchanged (no packet is sent), and in the dictionary \<^verbatim>\<open>radius_state\<close> and
  \<^verbatim>\<open>radius_message\<close> are \<^verbatim>\<open>None\<close> afterwards; this for every OTP value, every saved state,
  every token and every environment.
\<close>

theorem check_radius_sentinel:
  "(opt_get options ''radius_state'' = PStr ''<SUCCESS>'' \<longrightarrow>
      (\<exists>options'. check_radius env tok otpval options radius_state w = Inr (0, w, options')
         \<and> opt_get options' ''radius_state'' = PNone
         \<and> opt_get options' ''radius_message'' = PNone))
   \<and> (opt_get options ''radius_state'' = PStr ''<REJECTED>'' \<longrightarrow>
      (\<exists>options'. check_radius env tok otpval options radius_state w = Inr (-1, w, options')
         \<and> opt_get options' ''radius_state'' = PNone
         \<and> opt_get options' ''radius_message'' = PNone))"
proof (intro conjI impI)
  assume a: "opt_get options ''radius_state'' = PStr ''<SUCCESS>''"
  have "options \<noteq> []"
    using a by (auto simp: opt_get_def)
  with a show "\<exists>options'. check_radius env tok otpval options radius_state w = Inr (0, w, options')
         \<and> opt_get options' ''radius_state'' = PNone
         \<and> opt_get options' ''radius_message'' = PNone"
    by (simp add: check_radius_def caller_view_def opt_get_update)
next
  assume a: "opt_get options ''radius_state'' = PStr ''<REJECTED>''"
  have "options \<noteq> []"
    using a by (auto simp: opt_get_def)
  with a show "\<exists>options'. check_radius env tok otpval options radius_state w = Inr (-1, w, options')
         \<and> opt_get options' ''radius_state'' = PNone
         \<and> opt_get options' ''radius_message'' = PNone"
    by (simp add: check_radius_def caller_view_def opt_get_update)
qed

text \<open>The defining equations, for computing with the model.\<close>

lemmas model_defs =
  check_radius_def resolve_radius_def radius_try_def build_request_def handle_response_def
  get_from_config_default_def encode_ascii_def get_tokeninfo_def caller_view_def
  opt_update_def opt_get_def bytes_repr_def escape_byte_def check_otp_def check_pin_local_def local_pin_step_def
  is_challenge_request_def is_challenge_request_rest_def authenticate_def authenticate_rest_def
  get_challenges_def is_valid_def delete_challenge_def set_otp_status_def challenge_janitor_def
  fetch_transaction_id_def is_challenge_response_def check_challenge_response_def
  AccessAccept_def AccessReject_def AccessChallenge_def

lemmas ex_defs =
  ex_env_def ex_env_wrong_pin_def ex_tok_def ex_tok_noserver_def ex_tok_local_def ex_request_def ex_world_def net_timeout_def
  net_accept_def net_reject_def net_challenge_def net_challenge_bare_def
  net_challenge_then_accept_def ex_challenge_def ex_world1_def ex_world2_def

theorem check_radius_sentinel_witness:
  "opt_get [(''radius_state'', PStr ''<SUCCESS>'')] ''radius_state'' = PStr ''<SUCCESS>''
   \<and> (\<exists>options'. check_radius (ex_env net_timeout) ex_tok (ArgStr ''123456'')
          [(''radius_state'', PStr ''<SUCCESS>'')] PNone ex_world = Inr (0, ex_world, options')
        \<and> opt_get options' ''radius_state'' = PNone
        \<and> opt_get options' ''radius_message'' = PNone)
   \<and> opt_get [(''radius_state'', PStr ''<REJECTED>'')] ''radius_state'' = PStr ''<REJECTED>''
   \<and> (\<exists>options'. check_radius (ex_env net_accept) ex_tok (ArgStr ''123456'')
          [(''radius_state'', PStr ''<REJECTED>'')] PNone ex_world = Inr (-1, ex_world, options')
        \<and> opt_get options' ''radius_state'' = PNone
        \<and> opt_get options' ''radius_message'' = PNone)"
  using check_radius_sentinel [where options = "[(''radius_state'', PStr ''<SUCCESS>'')]"
          and env = "ex_env net_timeout" and tok = ex_tok and otpval = "ArgStr ''123456''"
          and radius_state = PNone and w = ex_world]
        check_radius_sentinel [where options = "[(''radius_state'', PStr ''<REJECTED>'')]"
          and env = "ex_env net_accept" and tok = ex_tok and otpval = "ArgStr ''123456''"
          and radius_state = PNone and w = ex_world]
  by (simp add: opt_get_def)

subsection \<open>Splitting the PIN\<close>

lemma split_pin_pass_local:
  "check_pin_local env tok \<Longrightarrow> split_pin_pass depth env tok passw user = Inl RecursionError"
  by (induction depth arbitrary: passw user) simp_all

text \<open>
  Claim C10. What \<^verbatim>\<open>split_pin_pass\<close> does for every password and every number of frames: in
  local-PIN mode it never returns a triple, the recursion ends in \<^verbatim>\<open>RecursionError\<close>; with
  local-PIN mode off (and a frame for the call) it returns 0, the empty PIN and the
  password unchanged.
\<close>

theorem split_pin_pass_result:
  "split_pin_pass depth env tok passw user =
     (if check_pin_local env tok \<or> depth = 0 then Inl RecursionError
      else Inr (0, ArgStr [], passw))"
  by (cases depth) (simp_all add: split_pin_pass_local)

subsection \<open>The reply codes\<close>

lemma check_radius_network:
  assumes "opt_get options ''radius_state'' \<noteq> PStr ''<SUCCESS>''"
      and "opt_get options ''radius_state'' \<noteq> PStr ''<REJECTED>''"
      and "resolve_radius env tok = Inr cfg"
  shows "check_radius env tok (ArgStr otp) options radius_state w =
           (case radius_try env tok otp options radius_state cfg w of
              (w1, raised, result, radius_state1, radius_message) \<Rightarrow>
                Inr (result,
                     (case raised of None \<Rightarrow> w1
                      | Some ex \<Rightarrow> w1\<lparr>events := events w1 @ [LogError ex]\<rparr>),
                     caller_view options
                       (opt_update ''radius_message'' radius_message
                          (opt_update ''radius_state'' radius_state1
                             (opt_update ''radius_result'' (PInt result) options)))))"
  using assms by (simp add: check_radius_def Let_def split: prod.splits)

lemma radius_try_reply:
  assumes "build_request env tok otp options radius_state cfg = Inr req"
      and "send_packet env (sent_requests (events w)) req = Inr resp"
  shows "radius_try env tok otp options radius_state cfg w =
           (w\<lparr>events := events w @ [Sent req]\<rparr>, handle_response resp radius_state)"
  using assms by (simp add: radius_try_def)

lemma handle_response_accept:
  "code resp = AccessAccept \<Longrightarrow>
   handle_response resp radius_state =
     (None, 0, PStr ''<SUCCESS>'', PStr ''RADIUS authentication succeeded'')"
  by (simp add: handle_response_def AccessAccept_def AccessChallenge_def)

lemma handle_response_other:
  "code resp \<noteq> AccessAccept \<Longrightarrow> code resp \<noteq> AccessChallenge \<Longrightarrow>
   handle_response resp radius_state =
     (None, -1, PStr ''<REJECTED>'', PStr ''RADIUS authentication failed'')"
  by (simp add: handle_response_def)

lemma handle_response_challenge:
  "code resp = AccessChallenge \<Longrightarrow> map_of (attrs resp) ''State'' = Some (s # ss) \<Longrightarrow>
   map_of (attrs resp) ''Reply-Message'' = Some (m # ms) \<Longrightarrow>
   handle_response resp radius_state = (None, 1, PBytes s, PStr m)"
  by (simp add: handle_response_def)

lemma handle_response_challenge_missing:
  "code resp = AccessChallenge \<Longrightarrow>
   map_of (attrs resp) ''State'' = None \<or> map_of (attrs resp) ''Reply-Message'' = None \<Longrightarrow>
   \<exists>k. handle_response resp radius_state = (Some (KeyError k), -1, radius_state, PNone)"
  by (cases "map_of (attrs resp) ''State''") (auto simp: handle_response_def Let_def)

text \<open>
  Claim C1. A challenge that carries a State and no Reply-Message: the \<^verbatim>\<open>log.info\<close> line
  raises \<^verbatim>\<open>KeyError\<close>, the handler logs it, and \<^verbatim>\<open>check_radius\<close> returns -1 with the
  \<^verbatim>\<open>radius_state\<close> it was called with, not 1 with the State of the server.
\<close>

theorem check_radius_challenge_without_message:
  "check_radius (ex_env net_challenge_bare) ex_tok (ArgStr ''123456'')
     [(''user'', PStr ''alice'')] (PStr ''S0'') ex_world =
   Inr (-1,
        \<lparr>events = [Sent (ex_request ''123456'' (Some ''S0'')),
                   LogError (KeyError ''Reply-Message'')],
           challenges = []\<rparr>,
        [(''user'', PStr ''alice''), (''radius_result'', PInt (-1)),
         (''radius_state'', PStr ''S0''), (''radius_message'', PNone)])"
  by (simp add: model_defs ex_defs)

subsection \<open>Failures of the exchange\<close>

lemma handle_response_malformed:
  assumes "code resp = AccessChallenge"
      and "map_of (attrs resp) ''State'' = None \<or> map_of (attrs resp) ''State'' = Some []
           \<or> map_of (attrs resp) ''Reply-Message'' = None
           \<or> map_of (attrs resp) ''Reply-Message'' = Some []"
  shows "\<exists>ex st. handle_response resp radius_state = (Some ex, -1, st, PNone)"
proof (cases "map_of (attrs resp) ''State''")
  case None
  with assms(1) show ?thesis by (simp add: handle_response_def)
next
  case (Some ss)
  show ?thesis
  proof (cases "map_of (attrs resp) ''Reply-Message''")
    case None
    with Some assms(1) show ?thesis by (simp add: handle_response_def)
  next
    case rm: (Some ms)
    from assms(2) Some rm have "ss = [] \<or> ms = []" by simp
    with Some rm assms(1) show ?thesis
      by (cases ss; cases ms) (simp_all add: handle_response_def)
  qed
qed

lemma handle_response_zero:
  "handle_response resp radius_state = (raised, 0, st, msg) \<Longrightarrow> code resp = AccessAccept"
  by (auto simp: handle_response_def Let_def
      split: if_splits option.splits list.splits sum.splits)

lemma radius_try_zero:
  assumes "radius_try env tok otp options radius_state cfg w = (w1, raised, 0, st, msg)"
  shows "\<exists>req resp. build_request env tok otp options radius_state cfg = Inr req
           \<and> send_packet env (sent_requests (events w)) req = Inr resp
           \<and> code resp = AccessAccept"
  using assms
  by (auto simp: radius_try_def Let_def split: sum.splits dest: handle_response_zero)

text \<open>
  Claim C4. The state is no sentinel and the configuration resolves, so the exchange is
  attempted. If the client or the request cannot be built, if \<^verbatim>\<open>SendPacket\<close> raises (no
  answer from the server), or if the reply is a challenge whose State or Reply-Message is
  missing or empty, then \<^verbatim>\<open>check_radius\<close> returns normally, its value is -1, and the
  exception is logged as the last event. And it returns 0 only when a request was built
  and sent and the reply has the code Access-Accept.
\<close>

theorem check_radius_fail_closed:
  assumes ns1: "opt_get options ''radius_state'' \<noteq> PStr ''<SUCCESS>''"
      and ns2: "opt_get options ''radius_state'' \<noteq> PStr ''<REJECTED>''"
      and cfg: "resolve_radius env tok = Inr cfg"
  shows "(build_request env tok otp options radius_state cfg = Inl ex \<longrightarrow>
            check_radius env tok (ArgStr otp) options radius_state w =
              Inr (-1, w\<lparr>events := events w @ [LogError ex]\<rparr>,
                   caller_view options
                     (opt_update ''radius_message'' PNone
                        (opt_update ''radius_state'' radius_state
                           (opt_update ''radius_result'' (PInt (-1)) options)))))
       \<and> (build_request env tok otp options radius_state cfg = Inr req
            \<and> send_packet env (sent_requests (events w)) req = Inl ex \<longrightarrow>
            check_radius env tok (ArgStr otp) options radius_state w =
              Inr (-1, w\<lparr>events := events w @ [Sent req, LogError ex]\<rparr>,
                   caller_view options
                     (opt_update ''radius_message'' PNone
                        (opt_update ''radius_state'' radius_state
                           (opt_update ''radius_result'' (PInt (-1)) options)))))
       \<and> (build_request env tok otp options radius_state cfg = Inr req
            \<and> send_packet env (sent_requests (events w)) req = Inr resp
            \<and> code resp = AccessChallenge
            \<and> (map_of (attrs resp) ''State'' = None \<or> map_of (attrs resp) ''State'' = Some []
                \<or> map_of (attrs resp) ''Reply-Message'' = None
                \<or> map_of (attrs resp) ''Reply-Message'' = Some []) \<longrightarrow>
            (\<exists>ex' options'.
               check_radius env tok (ArgStr otp) options radius_state w =
                 Inr (-1, w\<lparr>events := events w @ [Sent req, LogError ex']\<rparr>, options')))
       \<and> (check_radius env tok (ArgStr otp) options radius_state w = Inr (0, w', options') \<longrightarrow>
            (\<exists>req resp. build_request env tok otp options radius_state cfg = Inr req
               \<and> send_packet env (sent_requests (events w)) req = Inr resp
               \<and> code resp = AccessAccept))"
proof (intro conjI impI)
  assume "build_request env tok otp options radius_state cfg = Inl ex"
  then show "check_radius env tok (ArgStr otp) options radius_state w =
              Inr (-1, w\<lparr>events := events w @ [LogError ex]\<rparr>,
                   caller_view options
                     (opt_update ''radius_message'' PNone
                        (opt_update ''radius_state'' radius_state
                           (opt_update ''radius_result'' (PInt (-1)) options))))"
    by (simp add: check_radius_network [OF ns1 ns2 cfg] radius_try_def)
next
  assume "build_request env tok otp options radius_state cfg = Inr req
            \<and> send_packet env (sent_requests (events w)) req = Inl ex"
  then show "check_radius env tok (ArgStr otp) options radius_state w =
              Inr (-1, w\<lparr>events := events w @ [Sent req, LogError ex]\<rparr>,
                   caller_view options
                     (opt_update ''radius_message'' PNone
                        (opt_update ''radius_state'' radius_state
                           (opt_update ''radius_result'' (PInt (-1)) options))))"
    by (simp add: check_radius_network [OF ns1 ns2 cfg] radius_try_def)
next
  assume a: "build_request env tok otp options radius_state cfg = Inr req
            \<and> send_packet env (sent_requests (events w)) req = Inr resp
            \<and> code resp = AccessChallenge
            \<and> (map_of (attrs resp) ''State'' = None \<or> map_of (attrs resp) ''State'' = Some []
                \<or> map_of (attrs resp) ''Reply-Message'' = None
                \<or> map_of (attrs resp) ''Reply-Message'' = Some [])"
  then obtain ex' st where "handle_response resp radius_state = (Some ex', -1, st, PNone)"
    using handle_response_malformed [of resp radius_state] by blast
  with a show "\<exists>ex' options'.
               check_radius env tok (ArgStr otp) options radius_state w =
                 Inr (-1, w\<lparr>events := events w @ [Sent req, LogError ex']\<rparr>, options')"
    by (auto simp: check_radius_network [OF ns1 ns2 cfg] radius_try_def)
next
  assume z: "check_radius env tok (ArgStr otp) options radius_state w = Inr (0, w', options')"
  obtain w1 raised r1 st msg where
    t: "radius_try env tok otp options radius_state cfg w = (w1, raised, r1, st, msg)"
    by (metis prod_cases5)
  with z have "r1 = 0"
    by (simp add: check_radius_network [OF ns1 ns2 cfg])
  with t show "\<exists>req resp. build_request env tok otp options radius_state cfg = Inr req
               \<and> send_packet env (sent_requests (events w)) req = Inr resp
               \<and> code resp = AccessAccept"
    by (auto dest: radius_try_zero)
qed

theorem check_radius_fail_closed_witness:
  "opt_get [(''user'', PStr ''alice'')] ''radius_state'' \<noteq> PStr ''<SUCCESS>''
   \<and> opt_get [(''user'', PStr ''alice'')] ''radius_state'' \<noteq> PStr ''<REJECTED>''
   \<and> resolve_radius (ex_env net_accept) ex_tok_noserver = Inr (None, Some ''s3cr3t'', None)
   \<and> build_request (ex_env net_accept) ex_tok_noserver ''123456'' [(''user'', PStr ''alice'')]
        PNone (None, Some ''s3cr3t'', None) = Inl AttributeError
   \<and> check_radius (ex_env net_accept) ex_tok_noserver (ArgStr ''123456'')
        [(''user'', PStr ''alice'')] PNone ex_world =
        Inr (-1, \<lparr>events = [LogError AttributeError], challenges = []\<rparr>,
             [(''user'', PStr ''alice''), (''radius_result'', PInt (-1)),
              (''radius_state'', PNone), (''radius_message'', PNone)])
   \<and> resolve_radius (ex_env net_timeout) ex_tok = Inr (Some ''192.0.2.1'', Some ''s3cr3t'', None)
   \<and> build_request (ex_env net_timeout) ex_tok ''123456'' [(''user'', PStr ''alice'')]
        PNone (Some ''192.0.2.1'', Some ''s3cr3t'', None) = Inr (ex_request ''123456'' None)
   \<and> send_packet (ex_env net_timeout) (sent_requests (events ex_world))
        (ex_request ''123456'' None) = Inl (ClientError ''Timeout'')
   \<and> check_radius (ex_env net_timeout) ex_tok (ArgStr ''123456'')
        [(''user'', PStr ''alice'')] PNone ex_world =
        Inr (-1, \<lparr>events = [Sent (ex_request ''123456'' None), LogError (ClientError ''Timeout'')],
                   challenges = []\<rparr>,
             [(''user'', PStr ''alice''), (''radius_result'', PInt (-1)),
              (''radius_state'', PNone), (''radius_message'', PNone)])
   \<and> send_packet (ex_env net_challenge_bare) (sent_requests (events ex_world))
        (ex_request ''123456'' None) =
        Inr \<lparr>code = AccessChallenge, attrs = [(''State'', [''S1''])]\<rparr>
   \<and> (\<exists>ex' options'.
        check_radius (ex_env net_challenge_bare) ex_tok (ArgStr ''123456'')
          [(''user'', PStr ''alice'')] PNone ex_world =
        Inr (-1, \<lparr>events = [Sent (ex_request ''123456'' None), LogError ex'],
                   challenges = []\<rparr>, options'))"
proof -
  let ?o = "[(''user'', PStr ''alice'')] :: options"
  let ?cfg = "(Some ''192.0.2.1'', Some ''s3cr3t'', None) :: string option \<times> string option \<times> string option"
  have h1: "opt_get ?o ''radius_state'' \<noteq> PStr ''<SUCCESS>''"
    and h2: "opt_get ?o ''radius_state'' \<noteq> PStr ''<REJECTED>''"
    by (simp_all add: opt_get_def)
  have c0: "resolve_radius (ex_env net_accept) ex_tok_noserver = Inr (None, Some ''s3cr3t'', None)"
    by (simp add: resolve_radius_def ex_env_def ex_tok_noserver_def get_tokeninfo_def)
  have b0: "build_request (ex_env net_accept) ex_tok_noserver ''123456'' ?o
        PNone (None, Some ''s3cr3t'', None) = Inl AttributeError"
    by (simp add: build_request_def)
  have c1: "resolve_radius (ex_env net_timeout) ex_tok = Inr ?cfg"
    by (simp add: resolve_radius_def ex_env_def ex_tok_def get_tokeninfo_def)
  have b1: "build_request (ex_env net_timeout) ex_tok ''123456'' ?o PNone ?cfg =
              Inr (ex_request ''123456'' None)"
    by (simp add: model_defs ex_defs)
  have s1: "send_packet (ex_env net_timeout) (sent_requests (events ex_world))
        (ex_request ''123456'' None) = Inl (ClientError ''Timeout'')"
    by (simp add: ex_env_def net_timeout_def)
  have c2: "resolve_radius (ex_env net_challenge_bare) ex_tok = Inr ?cfg"
    by (simp add: resolve_radius_def ex_env_def ex_tok_def get_tokeninfo_def)
  have b2: "build_request (ex_env net_challenge_bare) ex_tok ''123456'' ?o PNone ?cfg =
              Inr (ex_request ''123456'' None)"
    by (simp add: model_defs ex_defs)
  have s2: "send_packet (ex_env net_challenge_bare) (sent_requests (events ex_world))
        (ex_request ''123456'' None) =
        Inr \<lparr>code = AccessChallenge, attrs = [(''State'', [''S1''])]\<rparr>"
    by (simp add: ex_env_def net_challenge_bare_def)
  from check_radius_fail_closed [OF h1 h2 c0, where otp = "''123456''" and radius_state = PNone
      and ex = AttributeError and w = ex_world] b0
  have r0: "check_radius (ex_env net_accept) ex_tok_noserver (ArgStr ''123456'') ?o PNone ex_world =
        Inr (-1, \<lparr>events = [LogError AttributeError], challenges = []\<rparr>,
             [(''user'', PStr ''alice''), (''radius_result'', PInt (-1)),
              (''radius_state'', PNone), (''radius_message'', PNone)])"
    by (simp add: caller_view_def opt_update_def ex_world_def)
  from check_radius_fail_closed [OF h1 h2 c1, where otp = "''123456''" and radius_state = PNone
      and ex = "ClientError ''Timeout''" and req = "ex_request ''123456'' None" and w = ex_world]
    b1 s1
  have r1: "check_radius (ex_env net_timeout) ex_tok (ArgStr ''123456'') ?o PNone ex_world =
        Inr (-1, \<lparr>events = [Sent (ex_request ''123456'' None), LogError (ClientError ''Timeout'')],
                   challenges = []\<rparr>,
             [(''user'', PStr ''alice''), (''radius_result'', PInt (-1)),
              (''radius_state'', PNone), (''radius_message'', PNone)])"
    by (simp add: caller_view_def opt_update_def ex_world_def)
  from check_radius_fail_closed [OF h1 h2 c2, where otp = "''123456''" and radius_state = PNone
      and req = "ex_request ''123456'' None" and w = ex_world
      and resp = "\<lparr>code = AccessChallenge, attrs = [(''State'', [''S1''])]\<rparr>"]
    b2 s2
  have r2: "\<exists>ex' options'.
        check_radius (ex_env net_challenge_bare) ex_tok (ArgStr ''123456'') ?o PNone ex_world =
        Inr (-1, \<lparr>events = [Sent (ex_request ''123456'' None), LogError ex'],
                   challenges = []\<rparr>, options')"
    by (simp add: ex_world_def)
  from h1 h2 c0 b0 r0 c1 b1 s1 r1 s2 r2 show ?thesis
    by simp
qed

subsection \<open>The cached verdict\<close>

lemma check_radius_success:
  "opt_get options ''radius_state'' = PStr ''<SUCCESS>'' \<Longrightarrow>
   check_radius env tok otpval options radius_state w =
     Inr (0, w, opt_update ''radius_message'' PNone (opt_update ''radius_state'' PNone options))"
  by (auto simp: check_radius_def caller_view_def opt_get_def)

lemma check_radius_rejected:
  "opt_get options ''radius_state'' = PStr ''<REJECTED>'' \<Longrightarrow>
   check_radius env tok otpval options radius_state w =
     Inr (-1, w, opt_update ''radius_message'' PNone (opt_update ''radius_state'' PNone options))"
  by (auto simp: check_radius_def caller_view_def opt_get_def)

lemma local_pin_step_off:
  "\<not> check_pin_local env tok \<Longrightarrow> local_pin_step env tok passw user = Inr (Some (ArgStr passw))"
  by (simp add: local_pin_step_def)

lemma local_pin_step_local:
  "check_pin_local env tok \<Longrightarrow> local_pin_step env tok passw user = Inl RecursionError"
  by (simp add: local_pin_step_def split_pin_pass_local)

text \<open>
  Claim C3, the counterexample. The options hold the verdict 1 and the State of the
  server; \<^verbatim>\<open>check_otp\<close> sends a packet all the same, and answers from the new reply.
\<close>

theorem check_otp_ignores_cached_result:
  "opt_get [(''radius_result'', PInt 1), (''radius_state'', PBytes ''S1'')] ''radius_result'' = PInt 1
   \<and> check_otp (ex_env net_accept) ex_tok (ArgStr ''123456'')
        [(''radius_result'', PInt 1), (''radius_state'', PBytes ''S1'')] ex_world =
      Inr (True,
           \<lparr>events = [Sent (ex_request ''123456'' None)], challenges = []\<rparr>,
           [(''radius_result'', PInt 0), (''radius_state'', PStr ''<SUCCESS>''),
            (''radius_message'', PStr ''RADIUS authentication succeeded'')])"
  by (simp add: model_defs ex_defs)

text \<open>
  Claim C3, amended. With a verdict in \<^verbatim>\<open>radius_result\<close> and local-PIN mode off,
  \<^verbatim>\<open>is_challenge_request\<close> and \<^verbatim>\<open>authenticate\<close> answer from that verdict and leave the
  world and the options as they are. \<^verbatim>\<open>check_radius\<close> and \<^verbatim>\<open>check_otp\<close> do not read
  \<^verbatim>\<open>radius_result\<close>; they leave the world as it is when \<^verbatim>\<open>radius_state\<close> is one of the two
  sentinels.
\<close>

theorem cached_verdict_no_network:
  assumes "opt_get options ''radius_result'' = v" and "v \<noteq> PNone"
      and "\<not> check_pin_local env tok"
  shows "is_challenge_request env tok passw user options w = Inr (v = PInt 1, w, options)
       \<and> (\<exists>reply. authenticate env tok passw user options w =
                     Inr ((v = PInt 0, v, reply), w, options))
       \<and> (opt_get options ''radius_state'' = PStr ''<SUCCESS>''
            \<or> opt_get options ''radius_state'' = PStr ''<REJECTED>'' \<longrightarrow>
          (\<exists>r options'. check_radius env tok otpval options radius_state w = Inr (r, w, options'))
          \<and> (\<exists>b options'. check_otp env tok otpval options w = Inr (b, w, options')))"
proof (intro conjI impI)
  show "is_challenge_request env tok passw user options w = Inr (v = PInt 1, w, options)"
    using assms
    by (simp add: is_challenge_request_def is_challenge_request_rest_def local_pin_step_off)
  show "\<exists>reply. authenticate env tok passw user options w = Inr ((v = PInt 0, v, reply), w, options)"
    using assms
    by (simp add: authenticate_def authenticate_rest_def local_pin_step_off)
next
  assume s: "opt_get options ''radius_state'' = PStr ''<SUCCESS>''
             \<or> opt_get options ''radius_state'' = PStr ''<REJECTED>''"
  then show "\<exists>r options'. check_radius env tok otpval options radius_state w = Inr (r, w, options')"
    by (auto simp: check_radius_success check_radius_rejected)
  from s show "\<exists>b options'. check_otp env tok otpval options w = Inr (b, w, options')"
    by (auto simp: check_otp_def check_radius_success check_radius_rejected)
qed

theorem cached_verdict_no_network_witness:
  "opt_get [(''radius_result'', PInt 0), (''radius_state'', PStr ''<SUCCESS>'')] ''radius_result'' = PInt 0
   \<and> PInt 0 \<noteq> PNone
   \<and> \<not> check_pin_local (ex_env net_reject) ex_tok
   \<and> opt_get [(''radius_result'', PInt 0), (''radius_state'', PStr ''<SUCCESS>'')] ''radius_state'' = PStr ''<SUCCESS>''
   \<and> is_challenge_request (ex_env net_reject) ex_tok ''123456'' ArgNone
        [(''radius_result'', PInt 0), (''radius_state'', PStr ''<SUCCESS>'')] ex_world =
      Inr (False, ex_world, [(''radius_result'', PInt 0), (''radius_state'', PStr ''<SUCCESS>'')])
   \<and> (\<exists>reply. authenticate (ex_env net_reject) ex_tok ''123456'' ArgNone
        [(''radius_result'', PInt 0), (''radius_state'', PStr ''<SUCCESS>'')] ex_world =
      Inr ((True, PInt 0, reply), ex_world,
           [(''radius_result'', PInt 0), (''radius_state'', PStr ''<SUCCESS>'')]))
   \<and> (\<exists>r options'. check_radius (ex_env net_reject) ex_tok (ArgStr ''123456'')
        [(''radius_result'', PInt 0), (''radius_state'', PStr ''<SUCCESS>'')] PNone ex_world =
      Inr (r, ex_world, options'))
   \<and> (\<exists>b options'. check_otp (ex_env net_reject) ex_tok (ArgStr ''123456'')
        [(''radius_result'', PInt 0), (''radius_state'', PStr ''<SUCCESS>'')] ex_world =
      Inr (b, ex_world, options'))"
proof -
  have h1: "opt_get [(''radius_result'', PInt 0), (''radius_state'', PStr ''<SUCCESS>'')] ''radius_result'' = PInt 0"
    by (simp add: opt_get_def)
  have h2: "PInt 0 \<noteq> PNone" by simp
  have h3: "\<not> check_pin_local (ex_env net_reject) ex_tok"
    by (simp add: check_pin_local_def get_tokeninfo_def ex_env_def ex_tok_def)
  have h4: "opt_get [(''radius_result'', PInt 0), (''radius_state'', PStr ''<SUCCESS>'')] ''radius_state'' = PStr ''<SUCCESS>''"
    by (simp add: opt_get_def)
  show ?thesis
    using h1 h2 h3 h4
      cached_verdict_no_network [OF h1 h2 h3, where passw = "''123456''" and user = ArgNone
        and w = ex_world and otpval = "ArgStr ''123456''" and radius_state = PNone]
    by simp
qed

subsection \<open>authenticate\<close>

lemma authenticate_off:
  assumes "\<not> check_pin_local env tok" and "opt_get options ''radius_result'' = PNone"
      and "check_radius env tok (ArgStr passw) options (opt_get options ''radius_state'') w =
             Inr (r, w1, options1)"
  shows "authenticate env tok passw user options w =
           Inr ((r = 0, PInt r,
                 (if r = 0 then [(''message'', ''matching 1 tokens''), (''serial'', serial tok),
                                 (''type'', tokentype tok)]
                  else if r = 1 then [(''message'', ''unexpected challenge required'')]
                  else [(''message'', ''remote side denied access'')])), w1, options1)"
  using assms by (simp add: authenticate_def authenticate_rest_def local_pin_step_off)

text \<open>
  Claim C5. A token in local-PIN mode whose base PIN check fails: \<^verbatim>\<open>authenticate\<close> raises
  \<^verbatim>\<open>RecursionError\<close> out of \<^verbatim>\<open>split_pin_pass\<close>; it does not return the triple with the
  message \<^verbatim>\<open>Wrong PIN\<close>.
\<close>

theorem authenticate_local_pin_raises:
  "authenticate (ex_env_wrong_pin net_accept) ex_tok_local ''0000123456'' ArgNone
     [(''user'', PStr ''alice'')] ex_world = Inl RecursionError"
proof -
  have "check_pin_local (ex_env_wrong_pin net_accept) ex_tok_local"
    by (simp add: check_pin_local_def get_tokeninfo_def ex_env_wrong_pin_def ex_env_def
        ex_tok_local_def)
  then show ?thesis
    by (simp add: authenticate_def local_pin_step_local)
qed

subsection \<open>is\_challenge\_request\<close>

lemma is_challenge_request_off:
  "\<not> check_pin_local env tok \<Longrightarrow>
   is_challenge_request env tok passw user options w =
     is_challenge_request_rest env tok passw (ArgStr passw) (opt_get options ''radius_state'')
       options w"
  by (simp add: is_challenge_request_def local_pin_step_off)

lemma is_challenge_request_rest_otpval:
  "is_challenge_request_rest env tok passw otpval state options w =
   is_challenge_request_rest env tok passw otpval' state options w"
  by (simp add: is_challenge_request_rest_def)

text \<open>
  Claim C9. A token in local-PIN mode, the password the PIN 0000 followed by the OTP
  123456: \<^verbatim>\<open>is_challenge_request\<close> raises \<^verbatim>\<open>RecursionError\<close> out of \<^verbatim>\<open>split_pin_pass\<close> and
  forwards nothing. And the lines after the PIN check, run with the remainder 123456 in
  \<^verbatim>\<open>otpval\<close>, send the whole password 0000123456 in the request.
\<close>

theorem is_challenge_request_local_pin:
  "is_challenge_request (ex_env net_challenge) ex_tok_local ''0000123456'' ArgNone
     [(''user'', PStr ''alice'')] ex_world = Inl RecursionError
   \<and> is_challenge_request_rest (ex_env net_challenge) ex_tok_local ''0000123456''
       (ArgStr ''123456'') PNone [(''user'', PStr ''alice'')] ex_world =
     Inr (True,
          \<lparr>events = [Sent (ex_request ''0000123456'' None)], challenges = []\<rparr>,
          [(''user'', PStr ''alice''), (''radius_result'', PInt 1),
           (''radius_state'', PBytes ''S1''), (''radius_message'', PStr ''Enter the next code'')])"
proof
  have "check_pin_local (ex_env net_challenge) ex_tok_local"
    by (simp add: check_pin_local_def get_tokeninfo_def ex_env_def ex_tok_local_def)
  then show "is_challenge_request (ex_env net_challenge) ex_tok_local ''0000123456'' ArgNone
     [(''user'', PStr ''alice'')] ex_world = Inl RecursionError"
    by (simp add: is_challenge_request_def local_pin_step_local)
  show "is_challenge_request_rest (ex_env net_challenge) ex_tok_local ''0000123456''
       (ArgStr ''123456'') PNone [(''user'', PStr ''alice'')] ex_world =
     Inr (True,
          \<lparr>events = [Sent (ex_request ''0000123456'' None)], challenges = []\<rparr>,
          [(''user'', PStr ''alice''), (''radius_result'', PInt 1),
           (''radius_state'', PBytes ''S1''), (''radius_message'', PStr ''Enter the next code'')])"
    by (simp add: model_defs ex_defs)
qed

subsection \<open>What check\_radius writes into the options\<close>

lemma map_of_opt_update:
  "map_of (opt_update k v options) = (map_of options)(k \<mapsto> v)"
  by (simp add: opt_update_def update_conv')

text \<open>
  Claim C8, the counterexample. \<^verbatim>\<open>is_challenge_response\<close> has reset \<^verbatim>\<open>radius_result\<close> and the
  state is the sentinel \<^verbatim>\<open><SUCCESS>\<close>: \<^verbatim>\<open>check_radius\<close> returns 0 and \<^verbatim>\<open>radius_result\<close> is
  still \<^verbatim>\<open>None\<close> afterwards.
\<close>

theorem check_radius_sentinel_keeps_result:
  "check_radius (ex_env net_reject) ex_tok (ArgStr ''123456'')
     [(''radius_result'', PNone), (''radius_state'', PStr ''<SUCCESS>'')] PNone ex_world =
   Inr (0, ex_world,
        [(''radius_result'', PNone), (''radius_state'', PNone), (''radius_message'', PNone)])"
  by (simp add: model_defs ex_defs)

text \<open>
  Claim C8, amended. For a dictionary that is not empty, whenever \<^verbatim>\<open>check_radius\<close> returns:
  on the two sentinel paths \<^verbatim>\<open>radius_state\<close> and \<^verbatim>\<open>radius_message\<close> are set to \<^verbatim>\<open>None\<close> and
  nothing else changes, \<^verbatim>\<open>radius_result\<close> included; on every other path (a reply of any
  code, or an exception in the \<^verbatim>\<open>try\<close> block) the value returned and the state and
  message the \<^verbatim>\<open>try\<close> block ends with are written to \<^verbatim>\<open>radius_result\<close>, \<^verbatim>\<open>radius_state\<close> and
  \<^verbatim>\<open>radius_message\<close>.
\<close>

theorem check_radius_write_back:
  assumes "check_radius env tok otpval options radius_state w = Inr (r, w', options')"
      and "options \<noteq> []"
  shows "if opt_get options ''radius_state'' = PStr ''<SUCCESS>''
            \<or> opt_get options ''radius_state'' = PStr ''<REJECTED>''
         then map_of options' =
                (map_of options)(''radius_state'' \<mapsto> PNone, ''radius_message'' \<mapsto> PNone)
         else (\<exists>cfg otp w1 raised st msg.
                 resolve_radius env tok = Inr cfg \<and> otpval = ArgStr otp
               \<and> radius_try env tok otp options radius_state cfg w = (w1, raised, r, st, msg)
               \<and> map_of options' =
                   (map_of options)(''radius_result'' \<mapsto> PInt r, ''radius_state'' \<mapsto> st,
                                    ''radius_message'' \<mapsto> msg))"
proof (cases "opt_get options ''radius_state'' = PStr ''<SUCCESS>''
            \<or> opt_get options ''radius_state'' = PStr ''<REJECTED>''")
  case True
  with assms show ?thesis
    by (auto simp: check_radius_success check_radius_rejected map_of_opt_update)
next
  case False
  then have ns: "opt_get options ''radius_state'' \<noteq> PStr ''<SUCCESS>''"
    "opt_get options ''radius_state'' \<noteq> PStr ''<REJECTED>''" by simp_all
  from assms(1) ns obtain cfg where cfg: "resolve_radius env tok = Inr cfg"
    by (cases "resolve_radius env tok") (simp_all add: check_radius_def)
  from assms(1) ns cfg obtain otp where otp: "otpval = ArgStr otp"
    by (cases otpval) (simp_all add: check_radius_def)
  obtain w1 raised r1 st msg where
    t: "radius_try env tok otp options radius_state cfg w = (w1, raised, r1, st, msg)"
    by (metis prod_cases5)
  from assms ns cfg otp t have "r1 = r"
    and "options' = opt_update ''radius_message'' msg
                      (opt_update ''radius_state'' st
                         (opt_update ''radius_result'' (PInt r) options))"
    by (auto simp: check_radius_network caller_view_def)
  with False cfg otp t show ?thesis
    by (simp add: map_of_opt_update)
qed

theorem check_radius_write_back_witness:
  "check_radius (ex_env net_challenge) ex_tok (ArgStr ''123456'') [(''user'', PStr ''alice'')]
     PNone ex_world =
     Inr (1, \<lparr>events = [Sent (ex_request ''123456'' None)], challenges = []\<rparr>,
          [(''user'', PStr ''alice''), (''radius_result'', PInt 1),
           (''radius_state'', PBytes ''S1''), (''radius_message'', PStr ''Enter the next code'')])
   \<and> [(''user'', PStr ''alice'')] \<noteq> ([] :: options)
   \<and> (\<exists>cfg otp w1 raised st msg.
         resolve_radius (ex_env net_challenge) ex_tok = Inr cfg \<and> ArgStr ''123456'' = ArgStr otp
       \<and> radius_try (ex_env net_challenge) ex_tok otp [(''user'', PStr ''alice'')] PNone cfg
            ex_world = (w1, raised, 1, st, msg)
       \<and> map_of [(''user'', PStr ''alice''), (''radius_result'', PInt 1),
           (''radius_state'', PBytes ''S1''), (''radius_message'', PStr ''Enter the next code'')] =
           (map_of [(''user'', PStr ''alice'')])(''radius_result'' \<mapsto> PInt 1,
              ''radius_state'' \<mapsto> st, ''radius_message'' \<mapsto> msg))"
proof -
  have h1: "check_radius (ex_env net_challenge) ex_tok (ArgStr ''123456'')
     [(''user'', PStr ''alice'')] PNone ex_world =
     Inr (1, \<lparr>events = [Sent (ex_request ''123456'' None)], challenges = []\<rparr>,
          [(''user'', PStr ''alice''), (''radius_result'', PInt 1),
           (''radius_state'', PBytes ''S1''), (''radius_message'', PStr ''Enter the next code'')])"
    by (simp add: model_defs ex_defs)
  have h2: "[(''user'', PStr ''alice'')] \<noteq> ([] :: options)" by simp
  show ?thesis
    using h1 h2 check_radius_write_back [OF h1 h2]
    by (simp add: opt_get_def)
qed

subsection \<open>The challenge table under the operations\<close>

lemma radius_try_challenges:
  "radius_try env tok otp options radius_state cfg w = (w1, rest) \<Longrightarrow>
   challenges w1 = challenges w"
  by (auto simp: radius_try_def Let_def split: sum.splits)

lemma check_radius_challenges:
  assumes "check_radius env tok otpval options radius_state w = Inr (r, w', options')"
  shows "challenges w' = challenges w"
proof (cases "opt_get options ''radius_state'' = PStr ''<SUCCESS>''
            \<or> opt_get options ''radius_state'' = PStr ''<REJECTED>''")
  case True
  with assms show ?thesis
    by (auto simp: check_radius_success check_radius_rejected)
next
  case False
  then have ns: "opt_get options ''radius_state'' \<noteq> PStr ''<SUCCESS>''"
    "opt_get options ''radius_state'' \<noteq> PStr ''<REJECTED>''" by simp_all
  from assms ns obtain cfg where cfg: "resolve_radius env tok = Inr cfg"
    by (cases "resolve_radius env tok") (simp_all add: check_radius_def)
  from assms ns cfg obtain otp where otp: "otpval = ArgStr otp"
    by (cases otpval) (simp_all add: check_radius_def)
  obtain w1 raised r1 st msg where
    t: "radius_try env tok otp options radius_state cfg w = (w1, raised, r1, st, msg)"
    by (metis prod_cases5)
  from assms ns cfg otp t have "w' = (case raised of None \<Rightarrow> w1
                      | Some ex \<Rightarrow> w1\<lparr>events := events w1 @ [LogError ex]\<rparr>)"
    by (auto simp: check_radius_network)
  with radius_try_challenges [OF t] show ?thesis
    by (simp split: option.splits)
qed

lemma filter_id_delete:
  "i \<noteq> ch_id c \<Longrightarrow>
   filter (\<lambda>d. ch_id d = i) (challenges (delete_challenge c w)) =
   filter (\<lambda>d. ch_id d = i) (challenges w)"
  by (auto simp: delete_challenge_def intro: filter_cong)






lemma filter_id_janitor:
  "filter (\<lambda>d. ch_id d = i) (challenges (challenge_janitor tok w)) =
   filter (\<lambda>d. \<not> (ch_serial d = serial tok \<and> \<not> is_valid d))
     (filter (\<lambda>d. ch_id d = i) (challenges w))"
  by (auto simp: challenge_janitor_def intro: filter_cong)

lemma filter_id_distinct:
  "distinct (map ch_id xs) \<Longrightarrow> c \<in> set xs \<Longrightarrow> filter (\<lambda>d. ch_id d = ch_id c) xs = [c]"
  by (induction xs) (auto simp: image_iff filter_empty_conv)

subsection \<open>The loop of check\_challenge\_response\<close>





lemma bind_exc_Inr:
  "bind_exc m f = Inr y \<longleftrightarrow> (\<exists>x. m = Inr x \<and> f x = Inr y)"
  by (cases m) auto


lemma get_challenges_subset:
  "set (get_challenges w ser tid) \<subseteq> set (challenges w)"
  by (auto simp: get_challenges_def)

lemma get_challenges_distinct:
  "distinct (map ch_id (challenges w)) \<Longrightarrow> distinct (map ch_id (get_challenges w ser tid))"
  by (simp add: get_challenges_def distinct_map_filter)




subsection \<open>The loop of is\_challenge\_response\<close>

lemma radius_try_events:
  "radius_try env tok otp options radius_state cfg w = (w1, rest) \<Longrightarrow>
   \<exists>es. events w1 = events w @ es"
  by (auto simp: radius_try_def Let_def split: sum.splits)

lemma check_radius_events:
  assumes "check_radius env tok otpval options radius_state w = Inr (r, w', options')"
  shows "\<exists>es. events w' = events w @ es"
proof (cases "opt_get options ''radius_state'' = PStr ''<SUCCESS>''
            \<or> opt_get options ''radius_state'' = PStr ''<REJECTED>''")
  case True
  with assms show ?thesis
    by (auto simp: check_radius_success check_radius_rejected)
next
  case False
  then have ns: "opt_get options ''radius_state'' \<noteq> PStr ''<SUCCESS>''"
    "opt_get options ''radius_state'' \<noteq> PStr ''<REJECTED>''" by simp_all
  from assms ns obtain cfg where cfg: "resolve_radius env tok = Inr cfg"
    by (cases "resolve_radius env tok") (simp_all add: check_radius_def)
  from assms ns cfg obtain otp where otp: "otpval = ArgStr otp"
    by (cases otpval) (simp_all add: check_radius_def)
  obtain w1 raised r1 st msg where
    t: "radius_try env tok otp options radius_state cfg w = (w1, raised, r1, st, msg)"
    by (metis prod_cases5)
  from assms ns cfg otp t have "w' = (case raised of None \<Rightarrow> w1
                      | Some ex \<Rightarrow> w1\<lparr>events := events w1 @ [LogError ex]\<rparr>)"
    by (auto simp: check_radius_network)
  with radius_try_events [OF t] show ?thesis
    by (auto split: option.splits)
qed

lemma icr_loop_append:
  "icr_loop env tok otpval (pre @ rest) cr w options =
     (case icr_loop env tok otpval pre cr w options of
        Inl e \<Rightarrow> Inl e
      | Inr (cr1, w1, options1) \<Rightarrow> icr_loop env tok otpval rest cr1 w1 options1)"
  by (induction pre arbitrary: cr w options) (auto split: sum.splits)

lemma icr_loop_no_valid:
  "\<forall>p \<in> set cs. \<not> is_valid p \<Longrightarrow>
   icr_loop env tok otpval cs cr w options = Inr (cr, w, options)"
  by (induction cs) auto

lemma icr_loop_True:
  "icr_loop env tok otpval cs True w options = Inr (b, w', options') \<Longrightarrow> b"
  by (induction cs arbitrary: w options) (auto split: sum.splits if_splits)

lemma icr_loop_events:
  "icr_loop env tok otpval cs cr w options = Inr (b, w', options') \<Longrightarrow>
   \<exists>es. events w' = events w @ es"
proof (induction cs arbitrary: cr w options)
  case Nil
  then show ?case by simp
next
  case (Cons c cs)
  show ?case
  proof (cases "is_valid c")
    case False
    with Cons show ?thesis by simp
  next
    case True
    with Cons.prems obtain v w1 o1 where
      cr: "check_radius env tok (ArgStr otpval) options (ch_data c) w = Inr (v, w1, o1)"
      by (auto split: sum.splits)
    from check_radius_events [OF cr] obtain es1 where es1: "events w1 = events w @ es1" ..
    show ?thesis
    proof (cases "v = 1")
      case False
      with Cons.prems True cr have "icr_loop env tok otpval cs True w1 o1 = Inr (b, w', options')"
        by simp
      from Cons.IH [OF this] es1 show ?thesis by auto
    next
      case v1: True
      with Cons.prems True cr have
        "icr_loop env tok otpval cs cr (challenge_janitor tok (delete_challenge c w1)) o1 =
           Inr (b, w', options')" by simp
      from Cons.IH [OF this] es1 show ?thesis
        by (auto simp: challenge_janitor_def delete_challenge_def)
    qed
  qed
qed

lemma icr_loop_challenges:
  "icr_loop env tok otpval cs cr w options = Inr (b, w', options') \<Longrightarrow>
   set (challenges w') \<subseteq> set (challenges w)"
proof (induction cs arbitrary: cr w options)
  case Nil
  then show ?case by simp
next
  case (Cons c cs)
  show ?case
  proof (cases "is_valid c")
    case False
    with Cons show ?thesis by simp
  next
    case True
    with Cons.prems obtain v w1 o1 where
      cr: "check_radius env tok (ArgStr otpval) options (ch_data c) w = Inr (v, w1, o1)"
      by (auto split: sum.splits)
    have w1: "challenges w1 = challenges w" by (rule check_radius_challenges [OF cr])
    show ?thesis
    proof (cases "v = 1")
      case False
      with Cons.prems True cr have "icr_loop env tok otpval cs True w1 o1 = Inr (b, w', options')"
        by simp
      from Cons.IH [OF this] w1 show ?thesis by simp
    next
      case v1: True
      with Cons.prems True cr have
        "icr_loop env tok otpval cs cr (challenge_janitor tok (delete_challenge c w1)) o1 =
           Inr (b, w', options')" by simp
      from Cons.IH [OF this] w1 show ?thesis
        by (auto simp: challenge_janitor_def delete_challenge_def)
    qed
  qed
qed

text \<open>
  Claim C7, the counterexample. Two valid challenges of the transaction; the replay of the
  first yields 1 (a challenge again), the replay of the second yields 0. The first
  record is deleted and the janitor runs, but \<^verbatim>\<open>is_challenge_response\<close> returns \<^verbatim>\<open>True\<close>.
\<close>

theorem is_challenge_response_true_after_rechallenge:
  "check_radius (ex_env net_challenge_then_accept) ex_tok (ArgStr ''123456'')
     [(''transaction_id'', PStr ''T1''), (''radius_result'', PNone)] (PStr ''S0'') ex_world2 =
     Inr (1, \<lparr>events = [Sent (ex_request ''123456'' (Some ''S0''))],
                challenges = [ex_challenge 1 ''S0'', ex_challenge 2 ''S0b'']\<rparr>,
          [(''transaction_id'', PStr ''T1''), (''radius_result'', PInt 1),
           (''radius_state'', PBytes ''S1''), (''radius_message'', PStr ''Enter the next code'')])
   \<and> is_challenge_response (ex_env net_challenge_then_accept) ex_tok ''123456''
       [(''transaction_id'', PStr ''T1'')] ex_world2 =
     Inr (True,
          \<lparr>events = [Sent (ex_request ''123456'' (Some ''S0'')), Janitor ''PIRA0001'',
                     Sent (ex_request ''123456'' (Some ''S0b''))],
             challenges = [ex_challenge 2 ''S0b'']\<rparr>,
          [(''transaction_id'', PStr ''T1''), (''radius_result'', PInt 0),
           (''radius_state'', PStr ''<SUCCESS>''),
           (''radius_message'', PStr ''RADIUS authentication succeeded'')])"
  by (simp add: model_defs ex_defs Let_def)

lemma icr_loop_kept:
  "icr_loop env tok otpval cs cr w options = Inr (b, w', options') \<Longrightarrow>
   ch_id c \<notin> ch_id ` set cs \<Longrightarrow> is_valid c \<Longrightarrow>
   filter (\<lambda>d. ch_id d = ch_id c) (challenges w) = [c] \<Longrightarrow>
   filter (\<lambda>d. ch_id d = ch_id c) (challenges w') = [c]"
proof (induction cs arbitrary: cr w options)
  case Nil
  then show ?case by simp
next
  case (Cons x cs)
  from Cons.prems(2) have xc: "ch_id c \<noteq> ch_id x" and ncs: "ch_id c \<notin> ch_id ` set cs"
    by auto
  show ?case
  proof (cases "is_valid x")
    case False
    with Cons.prems(1) have "icr_loop env tok otpval cs cr w options = Inr (b, w', options')"
      by simp
    from Cons.IH [OF this ncs Cons.prems(3) Cons.prems(4)] show ?thesis .
  next
    case True
    with Cons.prems(1) obtain v w1 o1 where
      cr: "check_radius env tok (ArgStr otpval) options (ch_data x) w = Inr (v, w1, o1)"
      by (auto split: sum.splits)
    have row1: "filter (\<lambda>d. ch_id d = ch_id c) (challenges w1) = [c]"
      using check_radius_challenges [OF cr] Cons.prems(4) by simp
    show ?thesis
    proof (cases "v = 1")
      case False
      with Cons.prems(1) True cr have
        "icr_loop env tok otpval cs True w1 o1 = Inr (b, w', options')" by simp
      from Cons.IH [OF this ncs Cons.prems(3) row1] show ?thesis .
    next
      case v1: True
      let ?w2 = "challenge_janitor tok (delete_challenge x w1)"
      from v1 Cons.prems(1) True cr have
        rest: "icr_loop env tok otpval cs cr ?w2 o1 = Inr (b, w', options')" by simp
      have "filter (\<lambda>d. ch_id d = ch_id c) (challenges ?w2) = [c]"
        using xc row1 Cons.prems(3) by (simp add: filter_id_janitor filter_id_delete)
      from Cons.IH [OF rest ncs Cons.prems(3) this] show ?thesis .
    qed
  qed
qed

lemma truthy_transaction_id_nonempty:
  "truthy (fetch_transaction_id (opt_update ''radius_result'' PNone options)) \<Longrightarrow> options \<noteq> []"
  by (auto simp: fetch_transaction_id_def opt_get_def opt_update_def)

text \<open>
  Claim C7, amended. Whenever \<^verbatim>\<open>is_challenge_response\<close> returns, with \<open>options'\<close> the caller's
  dictionary afterwards. When there is no truthy transaction identifier, or no valid
  challenge of the transaction, no Bridge call is made: the call returns \<^verbatim>\<open>False\<close>, the
  world is unchanged, and the dictionary is the one it was given with \<^verbatim>\<open>radius_result\<close> set
  to \<^verbatim>\<open>None\<close>. The loop starts from that reset dictionary. For a valid challenge \<open>c\<close> among
  the candidates \<open>pre @ c # post\<close>, \<open>v\<close> being what \<^verbatim>\<open>check_radius\<close> returns for its stored
  state: the call returns what the rest of the loop makes of it, and the dictionary of the
  replay when \<open>c\<close> is the last valid candidate; if \<open>v\<close> is not 1 the call returns \<^verbatim>\<open>True\<close> and
  the record of \<open>c\<close> is still in the table, unchanged; if \<open>v\<close> is 1, \<open>c\<close> is gone from the
  table and the janitor runs right after the replay, and the call returns \<^verbatim>\<open>False\<close> when no
  other candidate resolved the chain (none before \<open>c\<close>, and no valid one after it).
\<close>

theorem is_challenge_response_candidates:
  assumes ret: "is_challenge_response env tok passw options w = Inr (b, w', options')"
  shows "(\<not> truthy (fetch_transaction_id (opt_update ''radius_result'' PNone options))
          \<or> (\<forall>p \<in> set (get_challenges w (serial tok)
                 (fetch_transaction_id (opt_update ''radius_result'' PNone options))).
                \<not> is_valid p)
            \<longrightarrow> \<not> b \<and> w' = w
                \<and> options' = caller_view options (opt_update ''radius_result'' PNone options))
       \<and> (truthy (fetch_transaction_id (opt_update ''radius_result'' PNone options))
          \<and> get_challenges w (serial tok)
              (fetch_transaction_id (opt_update ''radius_result'' PNone options)) = pre @ c # post
          \<and> is_valid c
          \<and> icr_loop env tok passw pre False w (opt_update ''radius_result'' PNone options) =
              Inr (bi, wi, oi)
          \<and> check_radius env tok (ArgStr passw) oi (ch_data c) wi = Inr (v, w1, o1)
          \<longrightarrow> ((\<forall>p \<in> set pre. \<not> is_valid p) \<longrightarrow>
                  oi = opt_update ''radius_result'' PNone options \<and> wi = w \<and> \<not> bi)
            \<and> icr_loop env tok passw post (bi \<or> v \<noteq> 1)
                 (if v \<noteq> 1 then w1 else challenge_janitor tok (delete_challenge c w1)) o1 =
                 Inr (b, w', options')
            \<and> ((\<forall>p \<in> set post. \<not> is_valid p) \<longrightarrow> options' = o1 \<and> b = (bi \<or> v \<noteq> 1))
            \<and> (v \<noteq> 1 \<longrightarrow> b
                 \<and> (distinct (map ch_id (challenges w)) \<longrightarrow>
                      filter (\<lambda>d. ch_id d = ch_id c) (challenges w') = [c]))
            \<and> (v = 1 \<longrightarrow>
                 filter (\<lambda>d. ch_id d = ch_id c) (challenges w') = []
               \<and> (\<exists>es. events w' = events w1 @ Janitor (serial tok) # es)
               \<and> (\<not> bi \<and> (\<forall>p \<in> set post. \<not> is_valid p) \<longrightarrow> \<not> b)))"
proof -
  let ?o1 = "opt_update ''radius_result'' PNone options"
  let ?tid = "fetch_transaction_id ?o1"
  let ?cs = "get_challenges w (serial tok) ?tid"
  have nocall: "\<not> b \<and> w' = w \<and> options' = caller_view options ?o1"
    if "\<not> truthy ?tid \<or> (\<forall>p \<in> set ?cs. \<not> is_valid p)"
  proof (cases "truthy ?tid")
    case False
    with ret show ?thesis by (auto simp: is_challenge_response_def Let_def)
  next
    case True
    with that have "\<forall>p \<in> set ?cs. \<not> is_valid p" by simp
    from icr_loop_no_valid [OF this, of env tok passw False w ?o1] ret True
    show ?thesis
      by (simp add: is_challenge_response_def Let_def caller_view_def)
  qed
  have cand: "((\<forall>p \<in> set pre. \<not> is_valid p) \<longrightarrow> oi = ?o1 \<and> wi = w \<and> \<not> bi)
            \<and> icr_loop env tok passw post (bi \<or> v \<noteq> 1)
                 (if v \<noteq> 1 then w1 else challenge_janitor tok (delete_challenge c w1)) o1 =
                 Inr (b, w', options')
            \<and> ((\<forall>p \<in> set post. \<not> is_valid p) \<longrightarrow> options' = o1 \<and> b = (bi \<or> v \<noteq> 1))
            \<and> (v \<noteq> 1 \<longrightarrow> b
                 \<and> (distinct (map ch_id (challenges w)) \<longrightarrow>
                      filter (\<lambda>d. ch_id d = ch_id c) (challenges w') = [c]))
            \<and> (v = 1 \<longrightarrow>
                 filter (\<lambda>d. ch_id d = ch_id c) (challenges w') = []
               \<and> (\<exists>es. events w' = events w1 @ Janitor (serial tok) # es)
               \<and> (\<not> bi \<and> (\<forall>p \<in> set post. \<not> is_valid p) \<longrightarrow> \<not> b))"
    if t: "truthy ?tid"
      and g: "?cs = pre @ c # post"
      and valid: "is_valid c"
      and pre: "icr_loop env tok passw pre False w ?o1 = Inr (bi, wi, oi)"
      and cr: "check_radius env tok (ArgStr passw) oi (ch_data c) wi = Inr (v, w1, o1)"
  proof -
    let ?w2 = "if v \<noteq> 1 then w1 else challenge_janitor tok (delete_challenge c w1)"
    have ne: "options \<noteq> []" by (rule truthy_transaction_id_nonempty [OF t])
    from ret t g ne have
      "icr_loop env tok passw (pre @ c # post) False w ?o1 = Inr (b, w', options')"
      by (auto simp: is_challenge_response_def Let_def bind_exc_Inr caller_view_def
          simp del: split_paired_Ex)
    then have step: "icr_loop env tok passw (c # post) bi wi oi = Inr (b, w', options')"
      by (simp add: icr_loop_append pre)
    with valid cr have
      rest: "icr_loop env tok passw post (bi \<or> v \<noteq> 1) ?w2 o1 = Inr (b, w', options')"
      by (cases "v = 1") simp_all
    have first: "oi = ?o1 \<and> wi = w \<and> \<not> bi" if "\<forall>p \<in> set pre. \<not> is_valid p"
      using pre icr_loop_no_valid [OF that, of env tok passw False w ?o1] by simp
    have last: "options' = o1 \<and> b = (bi \<or> v \<noteq> 1)" if "\<forall>p \<in> set post. \<not> is_valid p"
      using rest icr_loop_no_valid [OF that, of env tok passw "bi \<or> v \<noteq> 1" ?w2 o1] by auto
    have other: "b \<and> (distinct (map ch_id (challenges w)) \<longrightarrow>
                      filter (\<lambda>d. ch_id d = ch_id c) (challenges w') = [c])"
      if vn: "v \<noteq> 1"
    proof
      from rest vn have r1: "icr_loop env tok passw post True w1 o1 = Inr (b, w', options')"
        by simp
      then show b by (rule icr_loop_True)
      show "distinct (map ch_id (challenges w)) \<longrightarrow>
              filter (\<lambda>d. ch_id d = ch_id c) (challenges w') = [c]"
      proof
        assume dist: "distinct (map ch_id (challenges w))"
        have "distinct (map ch_id (pre @ c # post))"
          using get_challenges_distinct [OF dist, of "serial tok" ?tid] g by simp
        then have npre: "ch_id c \<notin> ch_id ` set pre" and npost: "ch_id c \<notin> ch_id ` set post"
          by auto
        have "c \<in> set (challenges w)"
          using get_challenges_subset [of w "serial tok" ?tid] g by auto
        then have row: "filter (\<lambda>d. ch_id d = ch_id c) (challenges w) = [c]"
          by (rule filter_id_distinct [OF dist])
        have "filter (\<lambda>d. ch_id d = ch_id c) (challenges wi) = [c]"
          by (rule icr_loop_kept [OF pre npre valid row])
        then have "filter (\<lambda>d. ch_id d = ch_id c) (challenges w1) = [c]"
          using check_radius_challenges [OF cr] by simp
        then show "filter (\<lambda>d. ch_id d = ch_id c) (challenges w') = [c]"
          by (rule icr_loop_kept [OF r1 npost valid])
      qed
    qed
    have again: "filter (\<lambda>d. ch_id d = ch_id c) (challenges w') = []
               \<and> (\<exists>es. events w' = events w1 @ Janitor (serial tok) # es)
               \<and> (\<not> bi \<and> (\<forall>p \<in> set post. \<not> is_valid p) \<longrightarrow> \<not> b)"
      if v1: "v = 1"
    proof -
      let ?w3 = "challenge_janitor tok (delete_challenge c w1)"
      from rest v1 have
        r2: "icr_loop env tok passw post bi ?w3 o1 = Inr (b, w', options')"
        by simp
      have "\<forall>d \<in> set (challenges ?w3). ch_id d \<noteq> ch_id c"
        by (auto simp: challenge_janitor_def delete_challenge_def)
      with icr_loop_challenges [OF r2]
      have gone: "filter (\<lambda>d. ch_id d = ch_id c) (challenges w') = []"
        by (auto simp: filter_empty_conv)
      from icr_loop_events [OF r2] obtain es where "events w' = events ?w3 @ es" ..
      then have ev: "\<exists>es. events w' = events w1 @ Janitor (serial tok) # es"
        by (simp add: challenge_janitor_def delete_challenge_def)
      have "\<not> b" if "\<not> bi" and "\<forall>p \<in> set post. \<not> is_valid p"
        using r2 icr_loop_no_valid [OF that(2), of env tok passw bi ?w3 o1] that(1) by simp
      with gone ev show ?thesis by blast
    qed
    from first rest last other again show ?thesis by blast
  qed
  from nocall cand show ?thesis by blast
qed


theorem is_challenge_response_candidates_witness:
  "is_challenge_response (ex_env net_accept) ex_tok ''123456''
     [(''radius_result'', PInt 1)] ex_world1 =
     Inr (False, ex_world1, [(''radius_result'', PNone)])
   \<and> \<not> truthy (fetch_transaction_id
                (opt_update ''radius_result'' PNone [(''radius_result'', PInt 1)]))
   \<and> [(''radius_result'', PNone)] =
       caller_view [(''radius_result'', PInt 1)]
         (opt_update ''radius_result'' PNone [(''radius_result'', PInt 1)])
   \<and> is_challenge_response (ex_env net_challenge) ex_tok ''123456''
       [(''transaction_id'', PStr ''T1'')] ex_world1 =
     Inr (False,
          \<lparr>events = [Sent (ex_request ''123456'' (Some ''S0'')), Janitor ''PIRA0001''],
             challenges = []\<rparr>,
          [(''transaction_id'', PStr ''T1''), (''radius_result'', PInt 1),
           (''radius_state'', PBytes ''S1''), (''radius_message'', PStr ''Enter the next code'')])
   \<and> truthy (fetch_transaction_id
              (opt_update ''radius_result'' PNone [(''transaction_id'', PStr ''T1'')]))
   \<and> get_challenges ex_world1 (serial ex_tok)
        (fetch_transaction_id
           (opt_update ''radius_result'' PNone [(''transaction_id'', PStr ''T1'')])) =
        [] @ ex_challenge 1 ''S0'' # []
   \<and> is_valid (ex_challenge 1 ''S0'')
   \<and> icr_loop (ex_env net_challenge) ex_tok ''123456'' [] False ex_world1
        (opt_update ''radius_result'' PNone [(''transaction_id'', PStr ''T1'')]) =
        Inr (False, ex_world1, [(''transaction_id'', PStr ''T1''), (''radius_result'', PNone)])
   \<and> check_radius (ex_env net_challenge) ex_tok (ArgStr ''123456'')
        [(''transaction_id'', PStr ''T1''), (''radius_result'', PNone)]
        (ch_data (ex_challenge 1 ''S0'')) ex_world1 =
        Inr (1, \<lparr>events = [Sent (ex_request ''123456'' (Some ''S0''))],
                   challenges = [ex_challenge 1 ''S0'']\<rparr>,
             [(''transaction_id'', PStr ''T1''), (''radius_result'', PInt 1),
              (''radius_state'', PBytes ''S1''),
              (''radius_message'', PStr ''Enter the next code'')])
   \<and> filter (\<lambda>d. ch_id d = ch_id (ex_challenge 1 ''S0'')) ([] :: challenge list) = []
   \<and> (\<exists>es. [Sent (ex_request ''123456'' (Some ''S0'')), Janitor ''PIRA0001''] =
              [Sent (ex_request ''123456'' (Some ''S0''))] @ Janitor (serial ex_tok) # es)
   \<and> is_challenge_response (ex_env net_accept) ex_tok ''123456''
       [(''transaction_id'', PStr ''T1'')] ex_world1 =
     Inr (True,
          \<lparr>events = [Sent (ex_request ''123456'' (Some ''S0''))],
             challenges = [ex_challenge 1 ''S0'']\<rparr>,
          [(''transaction_id'', PStr ''T1''), (''radius_result'', PInt 0),
           (''radius_state'', PStr ''<SUCCESS>''),
           (''radius_message'', PStr ''RADIUS authentication succeeded'')])
   \<and> check_radius (ex_env net_accept) ex_tok (ArgStr ''123456'')
        [(''transaction_id'', PStr ''T1''), (''radius_result'', PNone)]
        (ch_data (ex_challenge 1 ''S0'')) ex_world1 =
        Inr (0, \<lparr>events = [Sent (ex_request ''123456'' (Some ''S0''))],
                   challenges = [ex_challenge 1 ''S0'']\<rparr>,
             [(''transaction_id'', PStr ''T1''), (''radius_result'', PInt 0),
              (''radius_state'', PStr ''<SUCCESS>''),
              (''radius_message'', PStr ''RADIUS authentication succeeded'')])
   \<and> distinct (map ch_id (challenges ex_world1))
   \<and> filter (\<lambda>d. ch_id d = ch_id (ex_challenge 1 ''S0'')) [ex_challenge 1 ''S0''] =
       [ex_challenge 1 ''S0'']"
proof -
  let ?t = "[(''transaction_id'', PStr ''T1'')] :: options"
  let ?tr = "[(''transaction_id'', PStr ''T1''), (''radius_result'', PNone)] :: options"
  let ?n = "[(''radius_result'', PInt 1)] :: options"
  have retA: "is_challenge_response (ex_env net_accept) ex_tok ''123456'' ?n ex_world1 =
     Inr (False, ex_world1, [(''radius_result'', PNone)])"
    by (simp add: model_defs ex_defs Let_def)
  have notid: "\<not> truthy (fetch_transaction_id (opt_update ''radius_result'' PNone ?n))"
    by (simp add: fetch_transaction_id_def opt_get_def opt_update_def)
  from is_challenge_response_candidates [OF retA] notid
  have cA: "[(''radius_result'', PNone)] =
       caller_view ?n (opt_update ''radius_result'' PNone ?n)"
    by simp
  have retB: "is_challenge_response (ex_env net_challenge) ex_tok ''123456'' ?t ex_world1 =
     Inr (False,
          \<lparr>events = [Sent (ex_request ''123456'' (Some ''S0'')), Janitor ''PIRA0001''],
             challenges = []\<rparr>,
          [(''transaction_id'', PStr ''T1''), (''radius_result'', PInt 1),
           (''radius_state'', PBytes ''S1''), (''radius_message'', PStr ''Enter the next code'')])"
    by (simp add: model_defs ex_defs Let_def)
  have tid: "truthy (fetch_transaction_id (opt_update ''radius_result'' PNone ?t))"
    by (simp add: fetch_transaction_id_def opt_get_def opt_update_def)
  have cands: "get_challenges ex_world1 (serial ex_tok)
        (fetch_transaction_id (opt_update ''radius_result'' PNone ?t)) =
        [] @ ex_challenge 1 ''S0'' # []"
    by (simp add: model_defs ex_defs)
  have valid: "is_valid (ex_challenge 1 ''S0'')"
    by (simp add: is_valid_def ex_challenge_def)
  have preB: "icr_loop (ex_env net_challenge) ex_tok ''123456'' [] False ex_world1
        (opt_update ''radius_result'' PNone ?t) = Inr (False, ex_world1, ?tr)"
    by (simp add: opt_update_def)
  have crB: "check_radius (ex_env net_challenge) ex_tok (ArgStr ''123456'') ?tr
        (ch_data (ex_challenge 1 ''S0'')) ex_world1 =
        Inr (1, \<lparr>events = [Sent (ex_request ''123456'' (Some ''S0''))],
                   challenges = [ex_challenge 1 ''S0'']\<rparr>,
             [(''transaction_id'', PStr ''T1''), (''radius_result'', PInt 1),
              (''radius_state'', PBytes ''S1''),
              (''radius_message'', PStr ''Enter the next code'')])"
    by (simp add: model_defs ex_defs)
  from is_challenge_response_candidates [OF retB, where pre = "[]"
      and c = "ex_challenge 1 ''S0''" and post = "[]" and bi = False
      and wi = ex_world1 and oi = ?tr and v = 1]
    tid cands valid preB crB
  have cB: "filter (\<lambda>d. ch_id d = ch_id (ex_challenge 1 ''S0'')) ([] :: challenge list) = []
   \<and> (\<exists>es. [Sent (ex_request ''123456'' (Some ''S0'')), Janitor ''PIRA0001''] =
              [Sent (ex_request ''123456'' (Some ''S0''))] @ Janitor (serial ex_tok) # es)"
    by (simp add: ex_tok_def)
  have retC: "is_challenge_response (ex_env net_accept) ex_tok ''123456'' ?t ex_world1 =
     Inr (True,
          \<lparr>events = [Sent (ex_request ''123456'' (Some ''S0''))],
             challenges = [ex_challenge 1 ''S0'']\<rparr>,
          [(''transaction_id'', PStr ''T1''), (''radius_result'', PInt 0),
           (''radius_state'', PStr ''<SUCCESS>''),
           (''radius_message'', PStr ''RADIUS authentication succeeded'')])"
    by (simp add: model_defs ex_defs Let_def)
  have preC: "icr_loop (ex_env net_accept) ex_tok ''123456'' [] False ex_world1
        (opt_update ''radius_result'' PNone ?t) = Inr (False, ex_world1, ?tr)"
    by (simp add: opt_update_def)
  have crC: "check_radius (ex_env net_accept) ex_tok (ArgStr ''123456'') ?tr
        (ch_data (ex_challenge 1 ''S0'')) ex_world1 =
        Inr (0, \<lparr>events = [Sent (ex_request ''123456'' (Some ''S0''))],
                   challenges = [ex_challenge 1 ''S0'']\<rparr>,
             [(''transaction_id'', PStr ''T1''), (''radius_result'', PInt 0),
              (''radius_state'', PStr ''<SUCCESS>''),
              (''radius_message'', PStr ''RADIUS authentication succeeded'')])"
    by (simp add: model_defs ex_defs)
  have dist: "distinct (map ch_id (challenges ex_world1))"
    by (simp add: ex_world1_def)
  from is_challenge_response_candidates [OF retC, where pre = "[]"
      and c = "ex_challenge 1 ''S0''" and post = "[]" and bi = False
      and wi = ex_world1 and oi = ?tr and v = 0]
    tid cands valid preC crC dist
  have cC: "filter (\<lambda>d. ch_id d = ch_id (ex_challenge 1 ''S0'')) [ex_challenge 1 ''S0''] =
       [ex_challenge 1 ''S0'']"
    by simp
  from retA notid cA retB tid cands valid preB crB cB retC crC dist cC show ?thesis
    by simp
qed

end
